theory Spec2Isabelle
  imports Main "HOL-Library.Word" "HOL-Library.AList"
begin

section \<open>The webhook reconciliation adapter of QuickCut Pro\<close>

text \<open>
  This theory embeds the serverless handler that receives field-change notifications
  of the external board and applies them to the \<open>projects\<close> table
  (\<^verbatim>\<open>src/unnamed/part_001\<close>), together with the part of the schema it
  writes to (\<^verbatim>\<open>src/unnamed/part_000\<close>), and proves the properties the
  specification states about it.

  The handler is JavaScript, so its data are JavaScript values. What the language and
  the two libraries do (truthiness, \<^verbatim>\<open>===\<close>, \<^verbatim>\<open>?.\<close>,
  \<^verbatim>\<open>String.prototype.trim\<close>, the query builder of the store client) is
  written out below; \<^verbatim>\<open>JSON.parse\<close>, the faults of the data layer and the
  clock of the database are parameters of the model. Calls of \<^verbatim>\<open>console\<close>
  are left out: they have no effect on the response or on the store.
\<close>

subsection \<open>JavaScript values\<close>

text \<open>
  A JavaScript string is a sequence of UTF-16 code units; the regular expression of the
  priority branch has no \<^verbatim>\<open>u\<close> flag and so works on code units. Property
  names, column names and HTTP method names are ASCII in this program and are written as
  HOL strings.
\<close>

type_synonym jstring = "16 word list"

definition utf16 :: "string \<Rightarrow> jstring" where
  "utf16 s = map of_char s"

text \<open>
  Numbers are modelled by integers: the handler only tests a number for being zero
  and hands it to the query builder, which renders it. \<open>Num n\<close> stands for the number
  that JavaScript holds exactly and prints in full, as the item identifiers of the board
  are: an integer of magnitude below \<open>2 ^ 53\<close>. An object is the list of its own
  properties, read by the first entry of a name.
\<close>

datatype jv =
    Undefined
  | Null
  | Bool bool
  | Num int
  | Str jstring
  | Arr "jv list"
  | Obj "(string \<times> jv) list"

type_synonym obj = "(string \<times> jv) list"

text \<open>Truthiness, as \<^verbatim>\<open>if (x)\<close>, \<^verbatim>\<open>!x\<close> and \<^verbatim>\<open>x || y\<close> test it.\<close>

fun truthy :: "jv \<Rightarrow> bool" where
  "truthy Undefined = False"
| "truthy Null = False"
| "truthy (Bool b) = b"
| "truthy (Num n) = (n \<noteq> 0)"
| "truthy (Str s) = (s \<noteq> [])"
| "truthy (Arr xs) = True"
| "truthy (Obj kvs) = True"

text \<open>\<^verbatim>\<open>a || b\<close>\<close>

definition or_js :: "jv \<Rightarrow> jv \<Rightarrow> jv" where
  "or_js a b = (if truthy a then a else b)"

text \<open>
  \<^verbatim>\<open>x?.k\<close>, and \<^verbatim>\<open>x.k\<close> where \<open>x\<close> is known not to be
  \<^verbatim>\<open>null\<close> or \<^verbatim>\<open>undefined\<close>. None of the names the handler reads
  (\<^verbatim>\<open>challenge event pulseId columnId value label text url date checked id\<close>)
  is a built-in property of a string, number, boolean or array, so reading them from
  anything but an object gives \<^verbatim>\<open>undefined\<close>.
\<close>

fun get_prop :: "jv \<Rightarrow> string \<Rightarrow> jv" where
  "get_prop (Obj kvs) k = (case map_of kvs k of Some v \<Rightarrow> v | None \<Rightarrow> Undefined)"
| "get_prop _ k = Undefined"

text \<open>
  \<^verbatim>\<open>a === b\<close>. Two objects (or arrays) are equal only when they are the same
  reference; the handler compares a value of the request with a configured string or with
  a literal, never with itself, so such a comparison is false.
\<close>

fun strict_eq :: "jv \<Rightarrow> jv \<Rightarrow> bool" where
  "strict_eq Undefined Undefined = True"
| "strict_eq Null Null = True"
| "strict_eq (Bool a) (Bool b) = (a = b)"
| "strict_eq (Num a) (Num b) = (a = b)"
| "strict_eq (Str a) (Str b) = (a = b)"
| "strict_eq _ _ = False"

text \<open>
  \<^verbatim>\<open>String(x)\<close>, as a template literal renders a value: the query builder
  of the store client writes the value of a filter into the query with it. An object is
  rendered by \<^verbatim>\<open>Object.prototype.toString\<close>; an object that hides it behind
  an own property \<^verbatim>\<open>toString\<close>, and a number of magnitude
  \<open>2 ^ 53\<close> or more, are not rendered as JavaScript does.
\<close>

fun digits :: "nat \<Rightarrow> jstring" where
  "digits n = (if n < 10 then [48 + of_nat n] else digits (n div 10) @ [48 + of_nat (n mod 10)])"

definition join_comma :: "jstring list \<Rightarrow> jstring" where
  "join_comma ss = (case ss of [] \<Rightarrow> [] | s # rest \<Rightarrow> s @ concat (map (\<lambda>t. 44 # t) rest))"

fun js_to_string :: "jv \<Rightarrow> jstring" where
  "js_to_string Undefined = utf16 ''undefined''"
| "js_to_string Null = utf16 ''null''"
| "js_to_string (Bool b) = (if b then utf16 ''true'' else utf16 ''false'')"
| "js_to_string (Num n) = (if n < 0 then 45 # digits (nat (- n)) else digits (nat n))"
| "js_to_string (Str s) = s"
| "js_to_string (Arr xs) =
     join_comma (map (\<lambda>x. if x = Null \<or> x = Undefined then [] else js_to_string x) xs)"
| "js_to_string (Obj kvs) = utf16 ''[object Object]''"

subsection \<open>The two string operations of the priority branch\<close>

text \<open>
  The pattern of the priority branch is an alternation of three character classes: the
  code units U+2700 to U+27BF, U+E000 to U+F8FF, and U+D83C to U+DBFF together with U+DC00
  to U+DFFF. It has the flag \<^verbatim>\<open>g\<close> and every match is replaced by the empty
  string, which keeps the other code units in their order.
\<close>

definition glyph_unit :: "16 word \<Rightarrow> bool" where
  "glyph_unit u \<longleftrightarrow>
     (0x2700 \<le> u \<and> u \<le> 0x27BF) \<or> (0xE000 \<le> u \<and> u \<le> 0xF8FF) \<or>
     (0xD83C \<le> u \<and> u \<le> 0xDBFF) \<or> (0xDC00 \<le> u \<and> u \<le> 0xDFFF)"

definition remove_glyphs :: "jstring \<Rightarrow> jstring" where
  "remove_glyphs s = filter (\<lambda>u. \<not> glyph_unit u) s"

text \<open>
  \<^verbatim>\<open>String.prototype.trim\<close> removes the white space and line terminators
  of ECMAScript from both ends.
\<close>

definition white_space :: "16 word \<Rightarrow> bool" where
  "white_space u \<longleftrightarrow>
     (0x09 \<le> u \<and> u \<le> 0x0D) \<or> u = 0x20 \<or> u = 0xA0 \<or> u = 0x1680 \<or>
     (0x2000 \<le> u \<and> u \<le> 0x200A) \<or> u = 0x2028 \<or> u = 0x2029 \<or> u = 0x202F \<or>
     u = 0x205F \<or> u = 0x3000 \<or> u = 0xFEFF"

definition trim :: "jstring \<Rightarrow> jstring" where
  "trim s = rev (dropWhile white_space (rev (dropWhile white_space s)))"

subsection \<open>Configuration, requests and responses\<close>

text \<open>
  The operations the handler issues against the record store: a filtered read of one
  column (\<^verbatim>\<open>.select('*').eq(column, value).maybeSingle()\<close>), the read of
  all rows that the not-found path logs, and the write
  (\<^verbatim>\<open>.update(updates).eq('id', value)\<close>).
\<close>

datatype db_op =
    Select_eq string jv
  | Select_all
  | Update obj jv

text \<open>
  The environment of one invocation: the variables of \<^verbatim>\<open>process.env\<close>
  (\<open>None\<close> is \<^verbatim>\<open>undefined\<close>), \<^verbatim>\<open>JSON.parse\<close>
  (\<open>None\<close> is its \<^verbatim>\<open>SyntaxError\<close>), the faults of the data layer
  (the message of the error the client returns for an operation, if it returns one), and
  the clock \<^verbatim>\<open>now()\<close> of the database.
\<close>

record env =
  supabaseUrl :: "jstring option"
  supabaseServiceKey :: "jstring option"
  MONDAY_NAME_COL_ID :: "jstring option"
  MONDAY_STATUS_COL_ID :: "jstring option"
  MONDAY_PRIORITY_COL_ID :: "jstring option"
  MONDAY_FILE_COL_ID :: "jstring option"
  MONDAY_DUEDATE_COL_ID :: "jstring option"
  MONDAY_GRANT_ACCESS_COL_ID :: "jstring option"
  MONDAY_FEEDBACK_COL_ID :: "jstring option"
  JSON_parse :: "jstring \<Rightarrow> jv option"
  db_fault :: "db_op \<Rightarrow> jstring option"
  db_now :: jv

definition env_value :: "jstring option \<Rightarrow> jv" where
  "env_value x = (case x of None \<Rightarrow> Undefined | Some s \<Rightarrow> Str s)"

text \<open>The field \<open>method_name\<close> is \<^verbatim>\<open>req.method\<close>.\<close>

record request =
  method_name :: string
  body :: jv

record response =
  status :: nat
  headers :: "(string \<times> string) list"
  json :: jv

definition cors_headers :: "(string \<times> string) list" where
  "cors_headers =
     [(''Access-Control-Allow-Origin'', ''*''),
      (''Access-Control-Allow-Methods'', ''POST, OPTIONS''),
      (''Access-Control-Allow-Headers'', ''Content-Type, Authorization'')]"

text \<open>\<^verbatim>\<open>res.status(code).json(j)\<close>, after the three calls of \<^verbatim>\<open>setHeader\<close>.\<close>

definition respond :: "nat \<Rightarrow> jv \<Rightarrow> response" where
  "respond code j = \<lparr>status = code, headers = cors_headers, json = j\<rparr>"

subsection \<open>The record store\<close>

text \<open>
  The table \<open>projects\<close> of the schema. A row is the object the client returns for it,
  one property for each column; the store is the list of the rows.
\<close>

type_synonym store = "obj list"

definition projects_columns :: "string list" where
  "projects_columns =
     [''id'', ''user_id'', ''monday_item_id'', ''name'', ''status'', ''priority'', ''due_date'',
      ''file_url'', ''file_name'', ''grant_view'', ''created_at'', ''updated_at'']"

text \<open>
  The columns \<open>id\<close> and \<open>user_id\<close> of the table are of type \<open>uuid\<close>. The
  database reads the value of a filter on such a column as a uuid and refuses the query
  when the text is none: 32 hexadecimal digits, of either case, read as 16 bytes, with an
  optional hyphen after every second byte but the last, the whole optionally in braces.
  \<open>uuid_rest n\<close> reads the last \<open>n\<close> of the 16 bytes and returns what follows them.
\<close>

definition uuid_columns :: "string list" where
  "uuid_columns = [''id'', ''user_id'']"

definition hex_digit :: "16 word \<Rightarrow> bool" where
  "hex_digit c \<longleftrightarrow>
     (0x30 \<le> c \<and> c \<le> 0x39) \<or> (0x41 \<le> c \<and> c \<le> 0x46) \<or> (0x61 \<le> c \<and> c \<le> 0x66)"

fun uuid_rest :: "nat \<Rightarrow> jstring \<Rightarrow> jstring option" where
  "uuid_rest 0 src = Some src"
| "uuid_rest (Suc n) src =
     (case src of
        a # b # rest \<Rightarrow>
          if hex_digit a \<and> hex_digit b
          then uuid_rest n
                 (case rest of
                    c # rest' \<Rightarrow> if c = 0x2D \<and> even n \<and> 0 < n then rest' else rest
                  | [] \<Rightarrow> rest)
          else None
      | _ \<Rightarrow> None)"

definition is_uuid :: "jstring \<Rightarrow> bool" where
  "is_uuid s \<longleftrightarrow>
     (case s of
        c # rest \<Rightarrow>
          if c = 0x7B then uuid_rest 16 rest = Some [0x7D] else uuid_rest 16 s = Some []
      | [] \<Rightarrow> False)"

definition refused :: "string \<Rightarrow> jstring \<Rightarrow> bool" where
  "refused column s \<longleftrightarrow> column \<in> set uuid_columns \<and> \<not> is_uuid s"

text \<open>The message of the error for the text \<open>s\<close>, which it quotes.\<close>

definition invalid_uuid :: "jstring \<Rightarrow> jstring" where
  "invalid_uuid s = utf16 ''invalid input syntax for type uuid: '' @ [0x22] @ s @ [0x22]"

text \<open>
  \<^verbatim>\<open>.eq(column, value)\<close>: the rows whose column is the rendered value. A
  column that is \<^verbatim>\<open>null\<close> matches nothing, and so does a value that the
  column refuses. A row holds a uuid in the spelling the database prints (lower case,
  hyphens after the bytes 4, 6, 8 and 10), and the comparison is one of spellings: a
  value that spells the uuid of a row in another way is accepted and matches no row here.
\<close>

definition eq_filter :: "string \<Rightarrow> jv \<Rightarrow> obj \<Rightarrow> bool" where
  "eq_filter column x r \<longleftrightarrow>
     get_prop (Obj r) column = Str (js_to_string x) \<and> \<not> refused column (js_to_string x)"

text \<open>
  \<^verbatim>\<open>.select('*').eq(column, value).maybeSingle()\<close>: the pair
  \<^verbatim>\<open>{ data, error }\<close> as a sum, \<open>Inl\<close> the message of the error. A
  value the column refuses is an error, no row is \<^verbatim>\<open>data: null\<close> without
  an error, more than one row is an error.
\<close>

definition select_eq :: "env \<Rightarrow> store \<Rightarrow> string \<Rightarrow> jv \<Rightarrow> jstring + jv" where
  "select_eq env st column x =
     (case db_fault env (Select_eq column x) of
        Some e \<Rightarrow> Inl e
      | None \<Rightarrow>
          if refused column (js_to_string x) then Inl (invalid_uuid (js_to_string x))
          else
            (case filter (eq_filter column x) st of
               [] \<Rightarrow> Inr Null
             | [r] \<Rightarrow> Inr (Obj r)
             | _ \<Rightarrow> Inl (utf16 ''JSON object requested, multiple (or no) rows returned'')))"

text \<open>
  \<^verbatim>\<open>.update(updates).eq('id', value)\<close>: every row whose \<open>id\<close> is the
  rendered value takes the properties of the payload, and the trigger
  \<open>update_projects_updated_at\<close> of the schema then stamps \<open>updated_at\<close>. The
  value is the \<open>id\<close> of a row that the database returned.

  What the database refuses of a write is a fault of the data layer and belongs to
  \<^const>\<open>db_fault\<close>: a payload that names no column of the table, a value that does
  not fit the type of its column.
\<close>

definition assign :: "obj \<Rightarrow> obj \<Rightarrow> obj" where
  "assign r updates = fold (\<lambda>(k, x). AList.update k x) updates r"

definition update_row :: "env \<Rightarrow> obj \<Rightarrow> obj \<Rightarrow> obj" where
  "update_row env updates r = AList.update ''updated_at'' (db_now env) (assign r updates)"

definition written :: "env \<Rightarrow> store \<Rightarrow> obj \<Rightarrow> jv \<Rightarrow> store" where
  "written env st updates x =
     map (\<lambda>r. if get_prop (Obj r) ''id'' = Str (js_to_string x)
               then update_row env updates r else r) st"

definition update_eq :: "env \<Rightarrow> store \<Rightarrow> obj \<Rightarrow> jv \<Rightarrow> jstring + store" where
  "update_eq env st updates x =
     (case db_fault env (Update updates x) of
        Some e \<Rightarrow> Inl e
      | None \<Rightarrow> Inr (written env st updates x))"

text \<open>
  What one run of the handler leaves behind: its result, the store, and the operations
  it issued against the store, in order.
\<close>

record 'a run =
  result :: 'a
  db :: store
  ops :: "db_op list"

subsection \<open>The handler\<close>

text \<open>
  \<^verbatim>\<open>typeof x === 'string' ? JSON.parse(x) : x\<close> inside
  \<^verbatim>\<open>try\<close>, with \<^verbatim>\<open>x\<close> itself in the
  \<^verbatim>\<open>catch\<close>. The handler does this twice: for the body of the request and,
  as \<open>safeParse\<close>, for the value of the event.
\<close>

definition payload_of :: "env \<Rightarrow> request \<Rightarrow> jv" where
  "payload_of env req =
     (case body req of
        Str s \<Rightarrow> (case JSON_parse env s of Some j \<Rightarrow> j | None \<Rightarrow> body req)
      | _ \<Rightarrow> body req)"

definition safeParse :: "env \<Rightarrow> jv \<Rightarrow> jv" where
  "safeParse env x =
     (case x of
        Str s \<Rightarrow> (case JSON_parse env s of Some j \<Rightarrow> j | None \<Rightarrow> x)
      | _ \<Rightarrow> x)"

text \<open>
  The \<^verbatim>\<open>switch\<close> on \<^verbatim>\<open>event.columnId\<close>: the first
  \<^verbatim>\<open>case\<close> whose label is strictly equal is taken. The result is the object
  \<open>updates\<close>, or the message of the \<^verbatim>\<open>TypeError\<close> that the call of
  \<^verbatim>\<open>replace\<close> raises when \<^verbatim>\<open>v.label.text\<close> is truthy and
  not a string.
\<close>

definition dispatch :: "env \<Rightarrow> jv \<Rightarrow> jv \<Rightarrow> jstring + obj" where
  "dispatch env event v =
     (let columnId = get_prop event ''columnId'' in
      if strict_eq columnId (env_value (MONDAY_STATUS_COL_ID env)) then
        (if truthy (get_prop (get_prop v ''label'') ''text'')
         then Inr [(''status'', get_prop (get_prop v ''label'') ''text'')]
         else Inr [])
      else if strict_eq columnId (env_value (MONDAY_PRIORITY_COL_ID env)) then
        (if truthy (get_prop (get_prop v ''label'') ''text'')
         then (case get_prop (get_prop v ''label'') ''text'' of
                 Str s \<Rightarrow> Inr [(''priority'', Str (trim (remove_glyphs s)))]
               | _ \<Rightarrow> Inl (utf16 ''v.label.text.replace is not a function''))
         else Inr [])
      else if strict_eq columnId (env_value (MONDAY_FILE_COL_ID env)) then
        (if truthy v
         then Inr [(''file_url'',
                     or_js (or_js (get_prop v ''url'') (get_prop v ''text'')) (get_prop event ''value'')),
                   (''file_name'', or_js (get_prop v ''text'') (Str (utf16 ''Project File'')))]
         else Inr [])
      else if strict_eq columnId (env_value (MONDAY_DUEDATE_COL_ID env)) then
        (if truthy (get_prop v ''date'')
         then Inr [(''due_date'', get_prop v ''date'')]
         else Inr [])
      else if strict_eq columnId (env_value (MONDAY_GRANT_ACCESS_COL_ID env)) then
        Inr [(''grant_view'',
               Bool (strict_eq (get_prop v ''checked'') (Bool True) \<or>
                     strict_eq (get_prop v ''checked'') (Str (utf16 ''true''))))]
      else if strict_eq columnId (env_value (MONDAY_FEEDBACK_COL_ID env)) then
        (if truthy (get_prop v ''text'')
         then Inr [(''feedback'', get_prop v ''text'')]
         else Inr [])
      else if strict_eq columnId (env_value (MONDAY_NAME_COL_ID env)) then
        (if truthy (get_prop v ''text'')
         then Inr [(''name'', get_prop v ''text'')]
         else Inr [])
      else Inr [])"

text \<open>The response of success, for a project and the object \<open>updates\<close>.\<close>

definition success :: "jv \<Rightarrow> obj \<Rightarrow> response" where
  "success project updates =
     respond 200 (Obj [(''success'', Bool True),
                       (''message'', Str (utf16 ''Webhook processed successfully'')),
                       (''projectId'', get_prop project ''id''),
                       (''updates'', Obj updates)])"

text \<open>
  From the located project to the response: parse the value, dispatch, write when
  \<open>updates\<close> has a key, report success. \<open>tr\<close> holds the operations issued so far.
\<close>

definition apply_event :: "env \<Rightarrow> store \<Rightarrow> jv \<Rightarrow> jv \<Rightarrow> db_op list \<Rightarrow> (jstring + response) run" where
  "apply_event env st event project tr =
     (let v = safeParse env (get_prop event ''value'') in
      case dispatch env event v of
        Inl e \<Rightarrow> \<lparr>result = Inl e, db = st, ops = tr\<rparr>
      | Inr updates \<Rightarrow>
          if updates \<noteq> [] then
            (case update_eq env st updates (get_prop project ''id'') of
               Inl updateError \<Rightarrow>
                 \<lparr>result = Inl updateError, db = st,
                  ops = tr @ [Update updates (get_prop project ''id'')]\<rparr>
             | Inr st' \<Rightarrow>
                 \<lparr>result = Inr (success project updates), db = st',
                  ops = tr @ [Update updates (get_prop project ''id'')]\<rparr>)
          else \<lparr>result = Inr (success project updates), db = st, ops = tr\<rparr>)"

definition credentials_missing :: "env \<Rightarrow> bool" where
  "credentials_missing env \<longleftrightarrow>
     \<not> truthy (env_value (supabaseUrl env)) \<or> \<not> truthy (env_value (supabaseServiceKey env))"

text \<open>
  \<^verbatim>\<open>const { event } = payload || {}\<close> and
  \<^verbatim>\<open>const pulseId = event?.pulseId\<close>.
\<close>

definition event_of :: "env \<Rightarrow> request \<Rightarrow> jv" where
  "event_of env req = get_prop (or_js (payload_of env req) (Obj [])) ''event''"

definition pulseId_of :: "env \<Rightarrow> request \<Rightarrow> jv" where
  "pulseId_of env req = get_prop (event_of env req) ''pulseId''"

text \<open>
  The lookup of the project: first by \<open>monday_item_id\<close>, and only when that read
  returns no row, by \<open>id\<close>. An error of either read is thrown. The result is
  \<open>foundProject\<close> (a row or \<^verbatim>\<open>null\<close>) with the reads issued.
\<close>

definition locate :: "env \<Rightarrow> store \<Rightarrow> jv \<Rightarrow> (jstring + jv) \<times> db_op list" where
  "locate env st pulseId =
     (case select_eq env st ''monday_item_id'' pulseId of
        Inl fetchError \<Rightarrow> (Inl fetchError, [Select_eq ''monday_item_id'' pulseId])
      | Inr foundProject \<Rightarrow>
          if \<not> truthy foundProject
          then (case select_eq env st ''id'' pulseId of
                  Inl fetchError \<Rightarrow>
                    (Inl fetchError, [Select_eq ''monday_item_id'' pulseId, Select_eq ''id'' pulseId])
                | Inr foundProject \<Rightarrow>
                    (Inr foundProject, [Select_eq ''monday_item_id'' pulseId, Select_eq ''id'' pulseId]))
          else (Inr foundProject, [Select_eq ''monday_item_id'' pulseId]))"

text \<open>
  The \<^verbatim>\<open>try\<close> block. \<open>Inl\<close> is the message of what it throws; a
  response it returns is \<open>Inr\<close>.
\<close>

definition try_block :: "env \<Rightarrow> store \<Rightarrow> request \<Rightarrow> (jstring + response) run" where
  "try_block env st req =
     (if credentials_missing env
      then \<lparr>result = Inl (utf16 ''Missing Supabase credentials''), db = st, ops = []\<rparr>
      else
        let event = event_of env req;
            pulseId = pulseId_of env req
        in
        if \<not> truthy pulseId
        then \<lparr>result = Inr (respond 400
                 (Obj [(''error'', Str (utf16 ''Invalid webhook payload - missing pulseId''))])),
              db = st, ops = []\<rparr>
        else
          (case locate env st pulseId of
             (Inl fetchError, tr) \<Rightarrow> \<lparr>result = Inl fetchError, db = st, ops = tr\<rparr>
           | (Inr foundProject, tr) \<Rightarrow>
               if \<not> truthy foundProject
               then \<lparr>result = Inr (respond 404
                        (Obj [(''error'', Str (utf16 ''Project not found'')),
                              (''pulseId'', pulseId),
                              (''message'',
                               Str (utf16 ''Check if monday_item_id is correctly stored in Supabase''))])),
                     db = st, ops = tr @ [Select_all]\<rparr>
               else apply_event env st event foundProject tr))"

text \<open>
  The \<^verbatim>\<open>catch\<close> of the handler: what was thrown becomes the response 500
  with \<^verbatim>\<open>err.message || 'Internal Server Error'\<close>.
\<close>

definition catch_block :: "(jstring + response) run \<Rightarrow> response run" where
  "catch_block r =
     (case result r of
        Inl e \<Rightarrow>
          \<lparr>result = respond 500
             (Obj [(''error'', or_js (Str e) (Str (utf16 ''Internal Server Error'')))]),
           db = db r, ops = ops r\<rparr>
      | Inr res \<Rightarrow> \<lparr>result = res, db = db r, ops = ops r\<rparr>)"

text \<open>
  The handler: the pre-flight answer, the challenge echo, the method check, then the
  \<^verbatim>\<open>try\<close> block under its \<^verbatim>\<open>catch\<close>.
\<close>

definition handler :: "env \<Rightarrow> store \<Rightarrow> request \<Rightarrow> response run" where
  "handler env st req =
     (if method_name req = ''OPTIONS''
      then \<lparr>result = respond 200 (Obj [(''ok'', Bool True)]), db = st, ops = []\<rparr>
      else if truthy (get_prop (body req) ''challenge'')
      then \<lparr>result = respond 200 (Obj [(''challenge'', get_prop (body req) ''challenge'')]),
            db = st, ops = []\<rparr>
      else if method_name req \<noteq> ''POST''
      then \<lparr>result = respond 405 (Obj [(''error'', Str (utf16 ''Method not allowed''))]),
            db = st, ops = []\<rparr>
      else catch_block (try_block env st req))"


subsection \<open>Predicates of the statements\<close>

text \<open>
  The seven configured column identifiers are pairwise different (two variables that are
  both unset are equal, both being \<^verbatim>\<open>undefined\<close>). The list is in the
  order of the \<^verbatim>\<open>case\<close> labels.
\<close>

definition column_ids :: "env \<Rightarrow> jstring option list" where
  "column_ids env =
     [MONDAY_STATUS_COL_ID env, MONDAY_PRIORITY_COL_ID env, MONDAY_FILE_COL_ID env,
      MONDAY_DUEDATE_COL_ID env, MONDAY_GRANT_ACCESS_COL_ID env, MONDAY_FEEDBACK_COL_ID env,
      MONDAY_NAME_COL_ID env]"

definition distinct_columns :: "env \<Rightarrow> bool" where
  "distinct_columns env \<longleftrightarrow> distinct (column_ids env)"

text \<open>The reads that look a project up by one column.\<close>

fun is_lookup :: "db_op \<Rightarrow> bool" where
  "is_lookup (Select_eq column x) = True"
| "is_lookup _ = False"

text \<open>The column identifier of an event is one of the configured ones.\<close>

definition recognized :: "env \<Rightarrow> jv \<Rightarrow> bool" where
  "recognized env columnId \<longleftrightarrow> (\<exists>c \<in> set (column_ids env). strict_eq columnId (env_value c))"

text \<open>
  A request that reaches the lookup: a \<^verbatim>\<open>POST\<close> without a challenge, to an
  adapter whose store credentials are configured.
\<close>

definition event_request :: "env \<Rightarrow> request \<Rightarrow> bool" where
  "event_request env req \<longleftrightarrow>
     method_name req = ''POST'' \<and> \<not> truthy (get_prop (body req) ''challenge'') \<and>
     \<not> credentials_missing env"

subsection \<open>A configuration and a store for the examples\<close>

text \<open>
  The parser of the examples reads the texts \<^verbatim>\<open>null\<close> and
  \<^verbatim>\<open>true\<close>; the examples hand it no other text but \<^verbatim>\<open>not json\<close>,
  which it rejects as \<^verbatim>\<open>JSON.parse\<close> does.
\<close>

definition sample_parse :: "jstring \<Rightarrow> jv option" where
  "sample_parse s =
     (if s = utf16 ''null'' then Some Null
      else if s = utf16 ''true'' then Some (Bool True)
      else None)"

definition sample_env :: env where
  "sample_env =
     \<lparr>supabaseUrl = Some (utf16 ''https://store.example''),
      supabaseServiceKey = Some (utf16 ''service-key''),
      MONDAY_NAME_COL_ID = Some (utf16 ''name''),
      MONDAY_STATUS_COL_ID = Some (utf16 ''status''),
      MONDAY_PRIORITY_COL_ID = Some (utf16 ''priority''),
      MONDAY_FILE_COL_ID = Some (utf16 ''files''),
      MONDAY_DUEDATE_COL_ID = Some (utf16 ''date4''),
      MONDAY_GRANT_ACCESS_COL_ID = Some (utf16 ''check''),
      MONDAY_FEEDBACK_COL_ID = Some (utf16 ''text9''),
      JSON_parse = sample_parse,
      db_fault = (\<lambda>p. None),
      db_now = Str (utf16 ''2025-01-02'')\<rparr>"

text \<open>
  Two projects of one owner: the first was created without an item of the board (its
  \<open>monday_item_id\<close> is \<^verbatim>\<open>null\<close>), the second carries the item 77.
\<close>

definition id_a :: jstring where
  "id_a = utf16 ''a0eebc99-9c0b-4ef8-bb6d-6bb9bd380a11''"

definition id_b :: jstring where
  "id_b = utf16 ''b1ffcd00-1d2c-4fa9-8c7e-7cc0ce491b22''"

definition id_u :: jstring where
  "id_u = utf16 ''c2aade11-2e3d-4ab0-9d8f-8dd1df502c33''"

definition project_a :: obj where
  "project_a =
     [(''id'', Str id_a), (''user_id'', Str id_u), (''monday_item_id'', Null),
      (''name'', Str (utf16 ''Clip'')), (''status'', Str (utf16 ''Not Started'')),
      (''priority'', Str (utf16 ''Urgent'')), (''due_date'', Null), (''file_url'', Null),
      (''file_name'', Null), (''grant_view'', Bool False),
      (''created_at'', Str (utf16 ''2025-01-01'')), (''updated_at'', Str (utf16 ''2025-01-01''))]"

definition project_b :: obj where
  "project_b =
     [(''id'', Str id_b), (''user_id'', Str id_u),
      (''monday_item_id'', Str (utf16 ''77'')),
      (''name'', Str (utf16 ''Trailer'')), (''status'', Str (utf16 ''Not Started'')),
      (''priority'', Str (utf16 ''Urgent'')), (''due_date'', Null), (''file_url'', Null),
      (''file_name'', Null), (''grant_view'', Bool False),
      (''created_at'', Str (utf16 ''2025-01-01'')), (''updated_at'', Str (utf16 ''2025-01-01''))]"

definition sample_store :: store where
  "sample_store = [project_a, project_b]"

text \<open>
  Labels of the priority column. The first is the one of the specification: U+1F525 (a
  surrogate pair), a space, the word, a space. The others begin with U+26A0 and the
  variation selector U+FE0F, with U+2764 and U+FE0F, and with U+1D11E (the surrogate pair
  U+D834 U+DD1E).
\<close>

definition fire_urgent :: jstring where
  "fire_urgent = [0xD83D, 0xDD25, 0x20] @ utf16 ''Urgent ''"

definition warning_urgent :: jstring where
  "warning_urgent = [0x26A0, 0xFE0F, 0x20] @ utf16 ''Urgent ''"

definition heart_urgent :: jstring where
  "heart_urgent = [0x2764, 0xFE0F, 0x20] @ utf16 ''Urgent ''"

definition clef_urgent :: jstring where
  "clef_urgent = [0xD834, 0xDD1E, 0x20] @ utf16 ''Urgent ''"

text \<open>The request that carries one event, as a parsed body.\<close>

definition event_post :: "jv \<Rightarrow> jv \<Rightarrow> jv \<Rightarrow> request" where
  "event_post pulseId columnId x =
     \<lparr>method_name = ''POST'',
      body = Obj [(''event'', Obj [(''pulseId'', pulseId), (''columnId'', columnId), (''value'', x)])]\<rparr>"

section \<open>Auxiliary facts\<close>

text \<open>
  How a run decomposes: an event request runs the \<^verbatim>\<open>try\<close> block; once a
  project is located the rest is \<^const>\<open>apply_event\<close>; the
  \<^verbatim>\<open>switch\<close> takes the case of a label when the labels are pairwise different.
\<close>

lemma handler_event_request:
  assumes "event_request env req"
  shows "handler env st req = catch_block (try_block env st req)"
  using assms by (simp add: handler_def event_request_def)

lemma try_block_located:
  assumes "\<not> credentials_missing env" and "truthy (pulseId_of env req)"
    and "locate env st (pulseId_of env req) = (Inr (Obj r), tr)"
  shows "try_block env st req = apply_event env st (event_of env req) (Obj r) tr"
  using assms by (simp add: try_block_def Let_def)

lemma handler_located:
  assumes "event_request env req" and "truthy (pulseId_of env req)"
    and "locate env st (pulseId_of env req) = (Inr (Obj r), tr)"
  shows "handler env st req = catch_block (apply_event env st (event_of env req) (Obj r) tr)"
  using assms handler_event_request [OF assms(1)] try_block_located [OF _ assms(2,3)]
  by (simp add: event_request_def)

lemma apply_event_write:
  assumes "dispatch env event (safeParse env (get_prop event ''value'')) = Inr updates"
    and "updates \<noteq> []"
    and "db_fault env (Update updates (get_prop project ''id'')) = None"
  shows "catch_block (apply_event env st event project tr) =
           \<lparr>result = success project updates,
            db = written env st updates (get_prop project ''id''),
            ops = tr @ [Update updates (get_prop project ''id'')]\<rparr>"
  using assms by (simp add: apply_event_def catch_block_def update_eq_def Let_def)

lemma apply_event_noop:
  assumes "dispatch env event (safeParse env (get_prop event ''value'')) = Inr []"
  shows "catch_block (apply_event env st event project tr) =
           \<lparr>result = success project [], db = st, ops = tr\<rparr>"
  using assms by (simp add: apply_event_def catch_block_def Let_def)

lemma apply_event_ops:
  assumes "dispatch env event (safeParse env (get_prop event ''value'')) = Inr updates"
    and "updates \<noteq> []"
  shows "ops (catch_block (apply_event env st event project tr)) =
           tr @ [Update updates (get_prop project ''id'')]"
  using assms
  by (simp add: apply_event_def catch_block_def update_eq_def Let_def split: option.splits)

lemma apply_event_lookups:
  "filter is_lookup (ops (apply_event env st event project tr)) = filter is_lookup tr"
  by (simp add: apply_event_def Let_def split: sum.splits)

lemma catch_block_ops: "ops (catch_block r) = ops r"
  by (simp add: catch_block_def split: sum.splits)

lemma catch_block_db: "db (catch_block r) = db r"
  by (simp add: catch_block_def split: sum.splits)

lemma not_refused_monday_item_id [simp]: "\<not> refused ''monday_item_id'' s"
  by (simp add: refused_def uuid_columns_def)

lemma filter_not_refused:
  assumes "filter (eq_filter column p) st = [r]"
  shows "\<not> refused column (js_to_string p)"
proof -
  have "r \<in> set (filter (eq_filter column p) st)" using assms by simp
  then show ?thesis by (simp add: eq_filter_def)
qed

lemma locate_first:
  assumes "db_fault env (Select_eq ''monday_item_id'' p) = None"
    and "filter (eq_filter ''monday_item_id'' p) st = [r]"
  shows "locate env st p = (Inr (Obj r), [Select_eq ''monday_item_id'' p])"
  using assms by (simp add: locate_def select_eq_def)

lemma locate_second:
  assumes "db_fault env (Select_eq ''monday_item_id'' p) = None"
    and "db_fault env (Select_eq ''id'' p) = None"
    and "filter (eq_filter ''monday_item_id'' p) st = []"
    and "filter (eq_filter ''id'' p) st = [r]"
  shows "locate env st p =
           (Inr (Obj r), [Select_eq ''monday_item_id'' p, Select_eq ''id'' p])"
  using assms filter_not_refused [OF assms(4)] by (simp add: locate_def select_eq_def)

lemma locate_none:
  assumes "db_fault env (Select_eq ''monday_item_id'' p) = None"
    and "db_fault env (Select_eq ''id'' p) = None"
    and "filter (eq_filter ''monday_item_id'' p) st = []"
    and "is_uuid (js_to_string p)"
    and "filter (eq_filter ''id'' p) st = []"
  shows "locate env st p = (Inr Null, [Select_eq ''monday_item_id'' p, Select_eq ''id'' p])"
  using assms by (simp add: locate_def select_eq_def refused_def)

lemma locate_refused:
  assumes "db_fault env (Select_eq ''monday_item_id'' p) = None"
    and "db_fault env (Select_eq ''id'' p) = None"
    and "filter (eq_filter ''monday_item_id'' p) st = []"
    and "\<not> is_uuid (js_to_string p)"
  shows "locate env st p =
           (Inl (invalid_uuid (js_to_string p)),
            [Select_eq ''monday_item_id'' p, Select_eq ''id'' p])"
  using assms by (simp add: locate_def select_eq_def refused_def uuid_columns_def)

lemma locate_lookups:
  "snd (locate env st p) = [Select_eq ''monday_item_id'' p] \<or>
   snd (locate env st p) = [Select_eq ''monday_item_id'' p, Select_eq ''id'' p]"
  by (simp add: locate_def split: sum.splits)

lemma try_block_lookups:
  assumes "\<not> credentials_missing env" and "truthy (pulseId_of env req)"
  shows "filter is_lookup (ops (try_block env st req)) = snd (locate env st (pulseId_of env req))"
  using assms locate_lookups [of env st "pulseId_of env req"]
  by (auto simp add: try_block_def Let_def apply_event_lookups split: prod.splits sum.splits)

lemma strict_eq_env_value: "strict_eq x (env_value a) \<Longrightarrow> x = env_value a"
  by (cases x; cases a) (simp_all add: env_value_def)

lemma strict_eq_env_values [simp]: "strict_eq (env_value a) (env_value b) \<longleftrightarrow> a = b"
  by (cases a; cases b) (simp_all add: env_value_def)

lemma dispatch_unrecognized:
  assumes "\<not> recognized env (get_prop event ''columnId'')"
  shows "dispatch env event v = Inr []"
  using assms by (simp add: dispatch_def recognized_def column_ids_def Let_def)

lemma dispatch_status:
  assumes "strict_eq (get_prop event ''columnId'') (env_value (MONDAY_STATUS_COL_ID env))"
    and "truthy (get_prop (get_prop v ''label'') ''text'')"
  shows "dispatch env event v = Inr [(''status'', get_prop (get_prop v ''label'') ''text'')]"
  using assms by (simp add: dispatch_def Let_def)

lemma dispatch_priority:
  assumes "distinct_columns env"
    and "strict_eq (get_prop event ''columnId'') (env_value (MONDAY_PRIORITY_COL_ID env))"
    and "get_prop (get_prop v ''label'') ''text'' = Str t" and "t \<noteq> []"
  shows "dispatch env event v = Inr [(''priority'', Str (trim (remove_glyphs t)))]"
  using assms(1,3,4) strict_eq_env_value [OF assms(2)]
  by (auto simp add: dispatch_def Let_def distinct_columns_def column_ids_def)

lemma dispatch_file:
  assumes "distinct_columns env"
    and "strict_eq (get_prop event ''columnId'') (env_value (MONDAY_FILE_COL_ID env))"
    and "truthy v"
  shows "dispatch env event v =
     Inr [(''file_url'', or_js (or_js (get_prop v ''url'') (get_prop v ''text'')) (get_prop event ''value'')),
          (''file_name'', or_js (get_prop v ''text'') (Str (utf16 ''Project File'')))]"
  using assms(1,3) strict_eq_env_value [OF assms(2)]
  by (auto simp add: dispatch_def Let_def distinct_columns_def column_ids_def)

lemma dispatch_grant_access:
  assumes "distinct_columns env"
    and "strict_eq (get_prop event ''columnId'') (env_value (MONDAY_GRANT_ACCESS_COL_ID env))"
  shows "dispatch env event v =
     Inr [(''grant_view'', Bool (get_prop v ''checked'' = Bool True \<or>
                                get_prop v ''checked'' = Str (utf16 ''true'')))]"
proof -
  have "strict_eq x (Bool True) \<longleftrightarrow> x = Bool True" for x by (cases x) auto
  moreover have "strict_eq x (Str s) \<longleftrightarrow> x = Str s" for x s by (cases x) auto
  ultimately show ?thesis
    using assms(1) strict_eq_env_value [OF assms(2)]
    by (auto simp add: dispatch_def Let_def distinct_columns_def column_ids_def)
qed

lemma dispatch_feedback:
  assumes "distinct_columns env"
    and "strict_eq (get_prop event ''columnId'') (env_value (MONDAY_FEEDBACK_COL_ID env))"
    and "truthy (get_prop v ''text'')"
  shows "dispatch env event v = Inr [(''feedback'', get_prop v ''text'')]"
  using assms(1,3) strict_eq_env_value [OF assms(2)]
  by (auto simp add: dispatch_def Let_def distinct_columns_def column_ids_def)

lemma dispatch_raw_string:
  "\<exists>updates. dispatch env event (Str s) = Inr updates"
  by (simp add: dispatch_def Let_def or_js_def)

lemma update_row_single:
  "get_prop (Obj (update_row env [(k, x)] r)) c =
     (if c = ''updated_at'' then db_now env else if c = k then x else get_prop (Obj r) c)"
  by (simp add: update_row_def assign_def update_conv')

lemma filter_single:
  assumes "filter P xs = [r]" and "x \<in> set xs"
  shows "P x \<longleftrightarrow> x = r"
proof -
  have "set (filter P xs) = {r}" using assms(1) by simp
  then have "{y \<in> set xs. P y} = {r}" by simp
  then show ?thesis using assms(2) by blast
qed

lemma written_single:
  assumes "filter (eq_filter ''id'' p) st = [r]"
  shows "written env st updates (Str (js_to_string p)) =
           map (\<lambda>x. if x = r then update_row env updates x else x) st"
proof -
  have "get_prop (Obj x) ''id'' = Str (js_to_string p) \<longleftrightarrow> x = r" if "x \<in> set st" for x
    using filter_single [OF assms that] filter_not_refused [OF assms]
    by (simp add: eq_filter_def)
  then show ?thesis
    unfolding written_def by (auto simp del: get_prop.simps)
qed

text \<open>Facts about trimming, the written store and the sample data.\<close>

lemma event_of_event_post:
  "event_of env (event_post p c x) = Obj [(''pulseId'', p), (''columnId'', c), (''value'', x)]"
  by (simp add: event_of_def payload_of_def event_post_def or_js_def)

lemma pulseId_of_event_post: "pulseId_of env (event_post p c x) = p"
  by (simp add: pulseId_of_def event_of_event_post)

lemma sample_event_request: "event_request sample_env (event_post p c x)"
  by (simp add: event_request_def event_post_def credentials_missing_def sample_env_def
        env_value_def utf16_def)

lemma filter_singleton_member:
  assumes "filter P xs = [r]"
  shows "r \<in> set xs"
proof -
  have "r \<in> set (filter P xs)" using assms by simp
  then show ?thesis by simp
qed

lemma select_eq_member:
  assumes "select_eq env st c p = Inr (Obj r)"
  shows "r \<in> set st"
  using assms
  by (auto simp add: select_eq_def split: option.splits list.splits if_splits
      dest: filter_singleton_member)

lemma locate_member:
  assumes "locate env st p = (Inr (Obj r), tr)"
  shows "r \<in> set st"
  using assms
  by (auto simp add: locate_def split: sum.splits if_splits dest: select_eq_member)

lemma length_written: "length (written env st updates x) = length st"
  by (simp add: written_def)

lemma written_nth:
  assumes "n < length st"
  shows "written env st updates x ! n =
           (if get_prop (Obj (st ! n)) ''id'' = Str (js_to_string x)
            then update_row env updates (st ! n) else st ! n)"
  using assms by (simp add: written_def)

lemma is_uuid_id_a: "is_uuid id_a"
  by code_simp

lemma id_a_neq_id_b: "id_a \<noteq> id_b"
  by (simp add: id_a_def id_b_def utf16_def)

lemma is_uuid_id_u: "is_uuid id_u"
  by code_simp

lemma id_u_nonempty: "id_u \<noteq> []"
  by (simp add: id_u_def utf16_def)

lemma not_uuid_78: "\<not> is_uuid (js_to_string (Num 78))"
  by code_simp

lemma sample_locate_77:
  "locate sample_env sample_store (Num 77) =
     (Inr (Obj project_b), [Select_eq ''monday_item_id'' (Num 77)])"
  by (rule locate_first)
    (simp_all add: sample_env_def sample_store_def project_a_def project_b_def eq_filter_def
      utf16_def)

lemma sample_written_b:
  "written sample_env sample_store updates (Str id_b) =
     [project_a, update_row sample_env updates project_b]"
  using id_a_neq_id_b
  by (simp add: written_def sample_store_def project_a_def project_b_def)

lemma sample_id_b: "get_prop (Obj project_b) ''id'' = Str id_b"
  by (simp add: project_b_def)

lemma sample_distinct_columns: "distinct_columns sample_env"
  by (simp add: distinct_columns_def column_ids_def sample_env_def utf16_def)

lemma sample_no_fault: "db_fault sample_env x = None"
  by (simp add: sample_env_def)

lemma status_success: "status (success project updates) = 200"
  by (simp add: success_def respond_def)

lemma handler_post:
  assumes "method_name req = ''POST''" and "\<not> truthy (get_prop (body req) ''challenge'')"
  shows "handler env st req = catch_block (try_block env st req)"
  using assms by (simp add: handler_def)

lemma apply_event_noop_run:
  assumes "dispatch env event (safeParse env (get_prop event ''value'')) = Inr []"
  shows "apply_event env st event project tr =
           \<lparr>result = Inr (success project []), db = st, ops = tr\<rparr>"
  using assms by (simp add: apply_event_def Let_def)

lemma try_block_no_write:
  assumes "dispatch env (event_of env req)
             (safeParse env (get_prop (event_of env req) ''value'')) = Inr []"
  shows "db (try_block env st req) = st \<and> (\<forall>u i. Update u i \<notin> set (ops (try_block env st req)))"
  using assms locate_lookups [of env st "pulseId_of env req"]
  by (auto simp add: try_block_def Let_def apply_event_noop_run split: prod.splits sum.splits)

lemma handler_refused:
  assumes "event_request env req" and "truthy (pulseId_of env req)"
    and "db_fault env (Select_eq ''monday_item_id'' (pulseId_of env req)) = None"
    and "db_fault env (Select_eq ''id'' (pulseId_of env req)) = None"
    and "filter (eq_filter ''monday_item_id'' (pulseId_of env req)) st = []"
    and "\<not> is_uuid (js_to_string (pulseId_of env req))"
  shows "handler env st req =
           \<lparr>result = respond 500
              (Obj [(''error'', Str (invalid_uuid (js_to_string (pulseId_of env req))))]),
            db = st,
            ops = [Select_eq ''monday_item_id'' (pulseId_of env req),
                   Select_eq ''id'' (pulseId_of env req)]\<rparr>"
proof -
  have "locate env st (pulseId_of env req) =
      (Inl (invalid_uuid (js_to_string (pulseId_of env req))),
       [Select_eq ''monday_item_id'' (pulseId_of env req),
        Select_eq ''id'' (pulseId_of env req)])"
    by (rule locate_refused [OF assms(3,4,5,6)])
  then show ?thesis
    using assms(1,2) handler_event_request [OF assms(1), of st]
    by (simp add: try_block_def catch_block_def event_request_def Let_def or_js_def
        invalid_uuid_def)
qed

lemma handler_not_found:
  assumes "event_request env req" and "truthy (pulseId_of env req)"
    and "db_fault env (Select_eq ''monday_item_id'' (pulseId_of env req)) = None"
    and "db_fault env (Select_eq ''id'' (pulseId_of env req)) = None"
    and "filter (eq_filter ''monday_item_id'' (pulseId_of env req)) st = []"
    and "is_uuid (js_to_string (pulseId_of env req))"
    and "filter (eq_filter ''id'' (pulseId_of env req)) st = []"
  shows "handler env st req =
           \<lparr>result = respond 404
              (Obj [(''error'', Str (utf16 ''Project not found'')),
                    (''pulseId'', pulseId_of env req),
                    (''message'',
                     Str (utf16 ''Check if monday_item_id is correctly stored in Supabase''))]),
            db = st,
            ops = [Select_eq ''monday_item_id'' (pulseId_of env req),
                   Select_eq ''id'' (pulseId_of env req), Select_all]\<rparr>"
proof -
  have "locate env st (pulseId_of env req) =
      (Inr Null, [Select_eq ''monday_item_id'' (pulseId_of env req),
                  Select_eq ''id'' (pulseId_of env req)])"
    by (rule locate_none [OF assms(3,4,5,6,7)])
  then show ?thesis
    using assms(1,2) handler_event_request [OF assms(1), of st]
    by (simp add: try_block_def catch_block_def event_request_def Let_def)
qed

section \<open>Properties\<close>

subsection \<open>The challenge handshake\<close>

text \<open>
  C1 (as the code has it). For every request whose method is not \<^verbatim>\<open>OPTIONS\<close>
  and whose body carries a truthy challenge token, the handler answers 200 with the same
  token in the response body, leaves the store alone and issues no operation against it.
  Neither the method (any other than \<^verbatim>\<open>OPTIONS\<close>), nor the configuration,
  nor the rest of the body is looked at: the check comes before the method validation
  and before the validation of the payload.
\<close>

theorem C1_challenge_echo:
  assumes "method_name req \<noteq> ''OPTIONS''" and "truthy (get_prop (body req) ''challenge'')"
  shows "handler env st req =
           \<lparr>result = respond 200 (Obj [(''challenge'', get_prop (body req) ''challenge'')]),
            db = st, ops = []\<rparr>"
  using assms by (simp add: handler_def)

text \<open>
  An instance: a \<^verbatim>\<open>GET\<close> with a challenge, sent to an adapter whose store
  address is not even configured, is echoed.
\<close>

theorem C1_challenge_echo_witness:
  "handler (sample_env\<lparr>supabaseUrl := None\<rparr>) sample_store
       \<lparr>method_name = ''GET'', body = Obj [(''challenge'', Str (utf16 ''abc''))]\<rparr> =
     \<lparr>result = respond 200 (Obj [(''challenge'', Str (utf16 ''abc''))]),
      db = sample_store, ops = []\<rparr>"
  using C1_challenge_echo [of "\<lparr>method_name = ''GET'', body = Obj [(''challenge'', Str (utf16 ''abc''))]\<rparr>"
      "sample_env\<lparr>supabaseUrl := None\<rparr>" sample_store]
  by (simp add: utf16_def)

text \<open>
  C1 as stated (the token is echoed for every method, \<^verbatim>\<open>OPTIONS\<close> included)
  fails: the pre-flight branch comes first, and an \<^verbatim>\<open>OPTIONS\<close> request that
  carries a challenge is answered with \<^verbatim>\<open>{ ok: true }\<close>.
\<close>

theorem C1_options_counterexample:
  "truthy (get_prop (body \<lparr>method_name = ''OPTIONS'', body = Obj [(''challenge'', Str (utf16 ''abc''))]\<rparr>)
             ''challenge'') \<and>
   json (result (handler sample_env sample_store
       \<lparr>method_name = ''OPTIONS'', body = Obj [(''challenge'', Str (utf16 ''abc''))]\<rparr>)) =
     Obj [(''ok'', Bool True)] \<and>
   json (result (handler sample_env sample_store
       \<lparr>method_name = ''OPTIONS'', body = Obj [(''challenge'', Str (utf16 ''abc''))]\<rparr>)) \<noteq>
     Obj [(''challenge'', Str (utf16 ''abc''))]"
  by (simp add: handler_def respond_def utf16_def)

subsection \<open>Requests that are refused\<close>

text \<open>
  C7. For every \<^verbatim>\<open>POST\<close> request without a challenge whose event
  descriptor lacks a \<open>pulseId\<close> (the event is missing, or the identifier is missing or
  falsy), no operation is issued against the record store, which stays as it was, and
  the handler, configured with its store credentials, answers 400 with a response that
  says that the \<open>pulseId\<close> is missing.
\<close>

theorem C7_missing_pulseId:
  assumes "method_name req = ''POST''" and "\<not> truthy (get_prop (body req) ''challenge'')"
    and "\<not> truthy (pulseId_of env req)"
  shows "db (handler env st req) = st \<and> ops (handler env st req) = [] \<and>
         (\<not> credentials_missing env \<longrightarrow>
            result (handler env st req) =
              respond 400
                (Obj [(''error'', Str (utf16 ''Invalid webhook payload - missing pulseId''))]))"
  unfolding handler_post [OF assms(1,2)]
  using assms(3) by (simp add: try_block_def catch_block_def Let_def)

text \<open>An instance: an event for the status column that names no item.\<close>

theorem C7_missing_pulseId_witness:
  "handler sample_env sample_store (event_post Undefined (Str (utf16 ''status'')) Null) =
     \<lparr>result = respond 400
        (Obj [(''error'', Str (utf16 ''Invalid webhook payload - missing pulseId''))]),
      db = sample_store, ops = []\<rparr>"
proof -
  let ?req = "event_post Undefined (Str (utf16 ''status'')) Null"
  have a: "method_name ?req = ''POST''" "\<not> truthy (get_prop (body ?req) ''challenge'')"
    by (simp_all add: event_post_def)
  have b: "\<not> truthy (pulseId_of sample_env ?req)"
    by (simp add: pulseId_of_event_post)
  have c: "\<not> credentials_missing sample_env"
    by (simp add: credentials_missing_def sample_env_def env_value_def utf16_def)
  have "r = \<lparr>result = x, db = y, ops = z\<rparr>" if "db r = y \<and> ops r = z \<and> result r = x"
    for r :: "response run" and x y z
    using that by (cases r) simp
  then show ?thesis
    using C7_missing_pulseId [OF a b, of sample_store] c by blast
qed

text \<open>
  C8. An event whose \<open>pulseId\<close> matches neither column of any row is to be answered
  404 with that \<open>pulseId\<close> in the body. The handler does so only when the database
  accepts the second lookup. The column \<open>id\<close> is a uuid, so for a \<open>pulseId\<close> that
  is not spelled as one (the item identifiers of the board are numbers) the second lookup
  is refused, the handler throws the error of the read, and the answer is 500 with the
  message of the database. The item 78 matches no row of the sample store, in either
  column, and is answered 500; the uuid of the owner, which is no project's \<open>id\<close>
  either, is answered 404. Nothing is written in either case.
\<close>

theorem C8_not_found_refused:
  "filter (\<lambda>r. get_prop (Obj r) ''monday_item_id'' = Str (js_to_string (Num 78)) \<or>
                get_prop (Obj r) ''id'' = Str (js_to_string (Num 78))) sample_store = [] \<and>
   handler sample_env sample_store (event_post (Num 78) (Str (utf16 ''status'')) Null) =
     \<lparr>result = respond 500 (Obj [(''error'', Str (invalid_uuid (utf16 ''78'')))]),
      db = sample_store,
      ops = [Select_eq ''monday_item_id'' (Num 78), Select_eq ''id'' (Num 78)]\<rparr> \<and>
   handler sample_env sample_store (event_post (Str id_u) (Str (utf16 ''status'')) Null) =
     \<lparr>result = respond 404
        (Obj [(''error'', Str (utf16 ''Project not found'')),
              (''pulseId'', Str id_u),
              (''message'', Str (utf16 ''Check if monday_item_id is correctly stored in Supabase''))]),
      db = sample_store,
      ops = [Select_eq ''monday_item_id'' (Str id_u), Select_eq ''id'' (Str id_u), Select_all]\<rparr>"
proof (intro conjI)
  have s78: "js_to_string (Num 78) = utf16 ''78''"
    by (simp add: utf16_def)
  show "filter (\<lambda>r. get_prop (Obj r) ''monday_item_id'' = Str (js_to_string (Num 78)) \<or>
                get_prop (Obj r) ''id'' = Str (js_to_string (Num 78))) sample_store = []"
    by (simp add: sample_store_def project_a_def project_b_def id_a_def id_b_def utf16_def)
  have m: "filter (eq_filter ''monday_item_id'' p) sample_store = []"
    if "js_to_string p \<noteq> utf16 ''77''" for p
    using that by (simp add: sample_store_def project_a_def project_b_def eq_filter_def)
  have m78: "filter (eq_filter ''monday_item_id'' (Num 78)) sample_store = []"
    by (rule m) (simp add: utf16_def)
  have "handler sample_env sample_store (event_post (Num 78) (Str (utf16 ''status'')) Null) =
      \<lparr>result = respond 500
         (Obj [(''error'', Str (invalid_uuid (js_to_string
            (pulseId_of sample_env (event_post (Num 78) (Str (utf16 ''status'')) Null)))))]),
       db = sample_store,
       ops = [Select_eq ''monday_item_id''
                (pulseId_of sample_env (event_post (Num 78) (Str (utf16 ''status'')) Null)),
              Select_eq ''id''
                (pulseId_of sample_env (event_post (Num 78) (Str (utf16 ''status'')) Null))]\<rparr>"
    by (rule handler_refused)
      (simp_all add: sample_event_request pulseId_of_event_post sample_no_fault m78 not_uuid_78
        del: js_to_string.simps)
  then show "handler sample_env sample_store (event_post (Num 78) (Str (utf16 ''status'')) Null) =
     \<lparr>result = respond 500 (Obj [(''error'', Str (invalid_uuid (utf16 ''78'')))]),
      db = sample_store,
      ops = [Select_eq ''monday_item_id'' (Num 78), Select_eq ''id'' (Num 78)]\<rparr>"
    unfolding pulseId_of_event_post s78 .
  have mu: "filter (eq_filter ''monday_item_id'' (Str id_u)) sample_store = []"
    by (rule m) (simp add: id_u_def utf16_def)
  have iu: "filter (eq_filter ''id'' (Str id_u)) sample_store = []"
    by (simp add: sample_store_def project_a_def project_b_def eq_filter_def id_a_def id_b_def
        id_u_def utf16_def)
  have "handler sample_env sample_store (event_post (Str id_u) (Str (utf16 ''status'')) Null) =
      \<lparr>result = respond 404
         (Obj [(''error'', Str (utf16 ''Project not found'')),
               (''pulseId'', pulseId_of sample_env (event_post (Str id_u) (Str (utf16 ''status'')) Null)),
               (''message'', Str (utf16 ''Check if monday_item_id is correctly stored in Supabase''))]),
       db = sample_store,
       ops = [Select_eq ''monday_item_id''
                (pulseId_of sample_env (event_post (Str id_u) (Str (utf16 ''status'')) Null)),
              Select_eq ''id''
                (pulseId_of sample_env (event_post (Str id_u) (Str (utf16 ''status'')) Null)),
              Select_all]\<rparr>"
    by (rule handler_not_found)
      (simp_all add: sample_event_request pulseId_of_event_post sample_no_fault mu iu is_uuid_id_u
        id_u_nonempty)
  then show "handler sample_env sample_store (event_post (Str id_u) (Str (utf16 ''status'')) Null) =
     \<lparr>result = respond 404
        (Obj [(''error'', Str (utf16 ''Project not found'')),
              (''pulseId'', Str id_u),
              (''message'', Str (utf16 ''Check if monday_item_id is correctly stored in Supabase''))]),
      db = sample_store,
      ops = [Select_eq ''monday_item_id'' (Str id_u), Select_eq ''id'' (Str id_u), Select_all]\<rparr>"
    unfolding pulseId_of_event_post .
qed

subsection \<open>The lookup of the project\<close>

text \<open>
  C3. For every event that carries a truthy \<open>pulseId\<close>, the handler looks the project
  up by \<open>monday_item_id\<close> first and by \<open>id\<close> second, and by nothing else: the
  lookups it issues are the first alone, or the first followed by the second. A row that
  the first lookup returns is the located project, and then the second lookup is not
  issued; when the first returns no row, the row the second returns is the located
  project. Consequently a project whose \<open>monday_item_id\<close> is
  \<^verbatim>\<open>null\<close> and whose \<open>id\<close> is the \<open>pulseId\<close> (no other project
  referring to that \<open>pulseId\<close>) is located by the second lookup, and the updates the
  event resolves are written to it and to no other row.
\<close>

theorem C3_lookup_order:
  assumes "event_request env req" and "pulseId_of env req = p" and "truthy p"
  shows
    "(filter is_lookup (ops (handler env st req)) = [Select_eq ''monday_item_id'' p] \<or>
      filter is_lookup (ops (handler env st req)) =
        [Select_eq ''monday_item_id'' p, Select_eq ''id'' p]) \<and>
     (\<forall>r. db_fault env (Select_eq ''monday_item_id'' p) = None \<and>
          filter (eq_filter ''monday_item_id'' p) st = [r] \<longrightarrow>
          handler env st req =
            catch_block (apply_event env st (event_of env req) (Obj r)
              [Select_eq ''monday_item_id'' p])) \<and>
     (\<forall>r. db_fault env (Select_eq ''monday_item_id'' p) = None \<and>
          db_fault env (Select_eq ''id'' p) = None \<and>
          filter (eq_filter ''monday_item_id'' p) st = [] \<and>
          filter (eq_filter ''id'' p) st = [r] \<longrightarrow>
          handler env st req =
            catch_block (apply_event env st (event_of env req) (Obj r)
              [Select_eq ''monday_item_id'' p, Select_eq ''id'' p])) \<and>
     (\<forall>r updates.
          get_prop (Obj r) ''monday_item_id'' = Null \<and>
          filter (eq_filter ''id'' p) st = [r] \<and>
          (\<forall>x \<in> set st. x \<noteq> r \<longrightarrow> \<not> eq_filter ''monday_item_id'' p x) \<and>
          db_fault env (Select_eq ''monday_item_id'' p) = None \<and>
          db_fault env (Select_eq ''id'' p) = None \<and>
          dispatch env (event_of env req)
            (safeParse env (get_prop (event_of env req) ''value'')) = Inr updates \<and>
          updates \<noteq> [] \<and>
          db_fault env (Update updates (Str (js_to_string p))) = None \<longrightarrow>
          handler env st req =
            \<lparr>result = success (Obj r) updates,
             db = map (\<lambda>x. if x = r then update_row env updates x else x) st,
             ops = [Select_eq ''monday_item_id'' p, Select_eq ''id'' p,
                    Update updates (Str (js_to_string p))]\<rparr>)"
proof (intro conjI allI impI)
  have "filter is_lookup (ops (handler env st req)) = snd (locate env st p)"
    using assms try_block_lookups [of env req st] handler_event_request [OF assms(1), of st]
    by (simp add: catch_block_ops event_request_def)
  then show "filter is_lookup (ops (handler env st req)) = [Select_eq ''monday_item_id'' p] \<or>
      filter is_lookup (ops (handler env st req)) =
        [Select_eq ''monday_item_id'' p, Select_eq ''id'' p]"
    using locate_lookups [of env st p] by simp
next
  fix r
  assume "db_fault env (Select_eq ''monday_item_id'' p) = None \<and>
          filter (eq_filter ''monday_item_id'' p) st = [r]"
  then have "locate env st p = (Inr (Obj r), [Select_eq ''monday_item_id'' p])"
    by (simp add: locate_first)
  then show "handler env st req =
            catch_block (apply_event env st (event_of env req) (Obj r)
              [Select_eq ''monday_item_id'' p])"
    using handler_located [of env req st r] assms by simp
next
  fix r
  assume "db_fault env (Select_eq ''monday_item_id'' p) = None \<and>
          db_fault env (Select_eq ''id'' p) = None \<and>
          filter (eq_filter ''monday_item_id'' p) st = [] \<and>
          filter (eq_filter ''id'' p) st = [r]"
  then have "locate env st p =
      (Inr (Obj r), [Select_eq ''monday_item_id'' p, Select_eq ''id'' p])"
    by (simp add: locate_second)
  then show "handler env st req =
            catch_block (apply_event env st (event_of env req) (Obj r)
              [Select_eq ''monday_item_id'' p, Select_eq ''id'' p])"
    using handler_located [of env req st r] assms by simp
next
  fix r updates
  assume h: "get_prop (Obj r) ''monday_item_id'' = Null \<and>
          filter (eq_filter ''id'' p) st = [r] \<and>
          (\<forall>x \<in> set st. x \<noteq> r \<longrightarrow> \<not> eq_filter ''monday_item_id'' p x) \<and>
          db_fault env (Select_eq ''monday_item_id'' p) = None \<and>
          db_fault env (Select_eq ''id'' p) = None \<and>
          dispatch env (event_of env req)
            (safeParse env (get_prop (event_of env req) ''value'')) = Inr updates \<and>
          updates \<noteq> [] \<and>
          db_fault env (Update updates (Str (js_to_string p))) = None"
  have "\<not> eq_filter ''monday_item_id'' p r"
    using h by (simp add: eq_filter_def)
  with h have first: "filter (eq_filter ''monday_item_id'' p) st = []"
    by (auto simp add: filter_empty_conv)
  have "r \<in> set (filter (eq_filter ''id'' p) st)"
    using h by simp
  then have rid: "get_prop (Obj r) ''id'' = Str (js_to_string p)"
    by (simp add: eq_filter_def)
  have "locate env st p =
      (Inr (Obj r), [Select_eq ''monday_item_id'' p, Select_eq ''id'' p])"
    using h first by (simp add: locate_second)
  then have "handler env st req =
      catch_block (apply_event env st (event_of env req) (Obj r)
        [Select_eq ''monday_item_id'' p, Select_eq ''id'' p])"
    using handler_located [of env req st r] assms by simp
  also have "\<dots> =
      \<lparr>result = success (Obj r) updates,
       db = written env st updates (get_prop (Obj r) ''id''),
       ops = [Select_eq ''monday_item_id'' p, Select_eq ''id'' p] @
             [Update updates (get_prop (Obj r) ''id'')]\<rparr>"
    using h rid by (intro apply_event_write) simp_all
  finally show "handler env st req =
            \<lparr>result = success (Obj r) updates,
             db = map (\<lambda>x. if x = r then update_row env updates x else x) st,
             ops = [Select_eq ''monday_item_id'' p, Select_eq ''id'' p,
                    Update updates (Str (js_to_string p))]\<rparr>"
    using h unfolding rid by (simp add: written_single del: get_prop.simps)
qed

text \<open>
  An instance: the project of the sample store that has no item of the board is found
  by its own identifier and its status is written.
\<close>

theorem C3_lookup_order_witness:
  "handler sample_env sample_store
       (event_post (Str id_a) (Str (utf16 ''status''))
          (Obj [(''label'', Obj [(''text'', Str (utf16 ''Completed''))])])) =
     \<lparr>result = success (Obj project_a) [(''status'', Str (utf16 ''Completed''))],
      db = [update_row sample_env [(''status'', Str (utf16 ''Completed''))] project_a, project_b],
      ops = [Select_eq ''monday_item_id'' (Str id_a), Select_eq ''id'' (Str id_a),
             Update [(''status'', Str (utf16 ''Completed''))] (Str id_a)]\<rparr>"
proof -
  let ?p = "Str id_a"
  let ?v = "Obj [(''label'', Obj [(''text'', Str (utf16 ''Completed''))])]"
  let ?req = "event_post ?p (Str (utf16 ''status'')) ?v"
  let ?updates = "[(''status'', Str (utf16 ''Completed''))]"
  have a: "event_request sample_env ?req"
    by (simp add: event_request_def event_post_def credentials_missing_def sample_env_def
        env_value_def utf16_def)
  have ev: "event_of sample_env ?req =
      Obj [(''pulseId'', ?p), (''columnId'', Str (utf16 ''status'')), (''value'', ?v)]"
    by (simp add: event_of_def payload_of_def event_post_def or_js_def)
  have b: "pulseId_of sample_env ?req = ?p"
    by (simp add: pulseId_of_def ev)
  have c: "truthy ?p"
    by (simp add: id_a_def utf16_def)
  have h1: "get_prop (Obj project_a) ''monday_item_id'' = Null"
    by (simp add: project_a_def)
  have h2: "filter (eq_filter ''id'' ?p) sample_store = [project_a]"
    using is_uuid_id_a id_a_neq_id_b
    by (auto simp add: sample_store_def project_a_def project_b_def eq_filter_def refused_def)
  have h3: "\<forall>x \<in> set sample_store. x \<noteq> project_a \<longrightarrow> \<not> eq_filter ''monday_item_id'' ?p x"
    by (simp add: sample_store_def project_b_def eq_filter_def id_a_def utf16_def)
  have h4: "db_fault sample_env (Select_eq ''monday_item_id'' ?p) = None"
    "db_fault sample_env (Select_eq ''id'' ?p) = None"
    "db_fault sample_env (Update ?updates (Str (js_to_string ?p))) = None"
    by (simp_all add: sample_env_def)
  have h5: "dispatch sample_env (event_of sample_env ?req)
      (safeParse sample_env (get_prop (event_of sample_env ?req) ''value'')) = Inr ?updates"
    unfolding ev
    by (simp add: dispatch_def safeParse_def sample_env_def env_value_def utf16_def)
  have h6: "?updates \<noteq> []"
    by simp
  show ?thesis
    using C3_lookup_order [OF a b c, of sample_store, THEN conjunct2, THEN conjunct2,
        THEN conjunct2, rule_format, of project_a ?updates] h1 h2 h3 h4 h5 h6
    by (simp add: sample_store_def project_a_def project_b_def)
qed

subsection \<open>The dispatch of the event\<close>

text \<open>
  C6. For an event of the status column whose parsed value has a truthy
  \<open>label.text\<close> (the text \<open>Completed\<close> of the specification is the instance below), applied
  to a located project: the payload of the single write is the status alone, the write is
  scoped by the identifier of the located project, and in the store after it every row
  with that identifier has that status and every other column as before, except
  \<open>updated_at\<close>, which the trigger of the schema stamps on every update; all other
  rows are as before.
\<close>

theorem C6_status_only:
  assumes "event_request env req" and "truthy (pulseId_of env req)"
    and "locate env st (pulseId_of env req) = (Inr (Obj r), tr)"
    and "strict_eq (get_prop (event_of env req) ''columnId'') (env_value (MONDAY_STATUS_COL_ID env))"
    and "get_prop (get_prop (safeParse env (get_prop (event_of env req) ''value'')) ''label'') ''text'' = x"
    and "truthy x"
    and "get_prop (Obj r) ''id'' = Str i"
    and "db_fault env (Update [(''status'', x)] (Str i)) = None"
  shows "handler env st req =
           \<lparr>result = success (Obj r) [(''status'', x)],
            db = written env st [(''status'', x)] (Str i),
            ops = tr @ [Update [(''status'', x)] (Str i)]\<rparr> \<and>
         r \<in> set st \<and>
         length (db (handler env st req)) = length st \<and>
         (\<forall>n < length st.
            if get_prop (Obj (st ! n)) ''id'' = Str i
            then get_prop (Obj (db (handler env st req) ! n)) ''status'' = x \<and>
                 (\<forall>c. c \<noteq> ''status'' \<and> c \<noteq> ''updated_at'' \<longrightarrow>
                    get_prop (Obj (db (handler env st req) ! n)) c = get_prop (Obj (st ! n)) c)
            else db (handler env st req) ! n = st ! n)"
proof -
  have d: "dispatch env (event_of env req) (safeParse env (get_prop (event_of env req) ''value'')) =
      Inr [(''status'', x)]"
    using dispatch_status [OF assms(4), of "safeParse env (get_prop (event_of env req) ''value'')"]
      assms(5,6) by simp
  have f: "db_fault env (Update [(''status'', x)] (get_prop (Obj r) ''id'')) = None"
    using assms(8) unfolding assms(7) .
  have run: "handler env st req =
           \<lparr>result = success (Obj r) [(''status'', x)],
            db = written env st [(''status'', x)] (Str i),
            ops = tr @ [Update [(''status'', x)] (Str i)]\<rparr>"
    unfolding handler_located [OF assms(1,2,3)]
    using apply_event_write [OF d _ f, of st tr] unfolding assms(7) by simp
  have frame: "if get_prop (Obj (st ! n)) ''id'' = Str i
            then get_prop (Obj (written env st [(''status'', x)] (Str i) ! n)) ''status'' = x \<and>
                 (\<forall>c. c \<noteq> ''status'' \<and> c \<noteq> ''updated_at'' \<longrightarrow>
                    get_prop (Obj (written env st [(''status'', x)] (Str i) ! n)) c =
                    get_prop (Obj (st ! n)) c)
            else written env st [(''status'', x)] (Str i) ! n = st ! n" if "n < length st" for n
    unfolding written_nth [OF that]
    by (simp add: eq_filter_def update_row_single del: get_prop.simps)
  have "db (handler env st req) = written env st [(''status'', x)] (Str i)"
    using run by simp
  then show ?thesis
    using run frame locate_member [OF assms(3)]
    by (simp add: length_written del: get_prop.simps)
qed

text \<open>
  An instance: the status \<open>Completed\<close> for the item 77. The second row is the
  project after the write.
\<close>

theorem C6_status_only_witness:
  "handler sample_env sample_store
       (event_post (Num 77) (Str (utf16 ''status''))
          (Obj [(''label'', Obj [(''text'', Str (utf16 ''Completed''))])])) =
     \<lparr>result = success (Obj project_b) [(''status'', Str (utf16 ''Completed''))],
      db = [project_a,
            [(''id'', Str id_b), (''user_id'', Str id_u),
             (''monday_item_id'', Str (utf16 ''77'')),
             (''name'', Str (utf16 ''Trailer'')), (''status'', Str (utf16 ''Completed'')),
             (''priority'', Str (utf16 ''Urgent'')), (''due_date'', Null), (''file_url'', Null),
             (''file_name'', Null), (''grant_view'', Bool False),
             (''created_at'', Str (utf16 ''2025-01-01'')), (''updated_at'', Str (utf16 ''2025-01-02''))]],
      ops = [Select_eq ''monday_item_id'' (Num 77),
             Update [(''status'', Str (utf16 ''Completed''))] (Str id_b)]\<rparr>"
proof -
  let ?v = "Obj [(''label'', Obj [(''text'', Str (utf16 ''Completed''))])]"
  let ?req = "event_post (Num 77) (Str (utf16 ''status'')) ?v"
  have b: "truthy (pulseId_of sample_env ?req)"
    by (simp add: pulseId_of_event_post)
  have c: "locate sample_env sample_store (pulseId_of sample_env ?req) =
      (Inr (Obj project_b), [Select_eq ''monday_item_id'' (Num 77)])"
    unfolding pulseId_of_event_post by (rule sample_locate_77)
  have e: "strict_eq (get_prop (event_of sample_env ?req) ''columnId'')
      (env_value (MONDAY_STATUS_COL_ID sample_env))"
    unfolding event_of_event_post by (simp add: sample_env_def env_value_def)
  have f: "get_prop (get_prop (safeParse sample_env (get_prop (event_of sample_env ?req) ''value''))
      ''label'') ''text'' = Str (utf16 ''Completed'')"
    unfolding event_of_event_post by (simp add: safeParse_def)
  have g: "truthy (Str (utf16 ''Completed''))"
    by (simp add: utf16_def)
  have u: "update_row sample_env [(''status'', Str (utf16 ''Completed''))] project_b =
      [(''id'', Str id_b), (''user_id'', Str id_u),
       (''monday_item_id'', Str (utf16 ''77'')),
       (''name'', Str (utf16 ''Trailer'')), (''status'', Str (utf16 ''Completed'')),
       (''priority'', Str (utf16 ''Urgent'')), (''due_date'', Null), (''file_url'', Null),
       (''file_name'', Null), (''grant_view'', Bool False),
       (''created_at'', Str (utf16 ''2025-01-01'')), (''updated_at'', Str (utf16 ''2025-01-02''))]"
    by (simp add: update_row_def assign_def project_b_def sample_env_def)
  show ?thesis
    using C6_status_only [OF sample_event_request b c e f g sample_id_b sample_no_fault,
        THEN conjunct1]
    unfolding sample_written_b u by simp
qed

text \<open>
  C2. For an event of the priority column the priority written is to be the text of
  the label without its pictographic and symbolic glyphs and without surrounding white
  space. The handler removes the code units that its pattern matches and trims, and the
  pattern misses glyphs. The label of the specification, U+1F525 before the word, becomes
  \<open>Urgent\<close>. But U+26A0 with its variation selector stays as it is; of U+2764 with its
  variation selector the selector stays, and the blank after it, which is no longer at
  the beginning; of U+1D11E the first half of the surrogate pair stays, alone. The write
  for the second of these labels is shown on the sample store. A label text that is
  truthy and not a string is answered 500, the call of \<^verbatim>\<open>replace\<close> having
  thrown.
\<close>

theorem C2_priority_glyphs_kept:
  "trim (remove_glyphs fire_urgent) = utf16 ''Urgent'' \<and>
   trim (remove_glyphs warning_urgent) = [0x26A0, 0xFE0F, 0x20] @ utf16 ''Urgent'' \<and>
   trim (remove_glyphs heart_urgent) = [0xFE0F, 0x20] @ utf16 ''Urgent'' \<and>
   trim (remove_glyphs clef_urgent) = [0xD834, 0x20] @ utf16 ''Urgent'' \<and>
   handler sample_env sample_store
       (event_post (Num 77) (Str (utf16 ''priority''))
          (Obj [(''label'', Obj [(''text'', Str warning_urgent)])])) =
     \<lparr>result = success (Obj project_b)
        [(''priority'', Str ([0x26A0, 0xFE0F, 0x20] @ utf16 ''Urgent''))],
      db = [project_a,
            update_row sample_env
              [(''priority'', Str ([0x26A0, 0xFE0F, 0x20] @ utf16 ''Urgent''))] project_b],
      ops = [Select_eq ''monday_item_id'' (Num 77),
             Update [(''priority'', Str ([0x26A0, 0xFE0F, 0x20] @ utf16 ''Urgent''))]
               (Str id_b)]\<rparr> \<and>
   result (handler sample_env sample_store
       (event_post (Num 77) (Str (utf16 ''priority''))
          (Obj [(''label'', Obj [(''text'', Num 5)])]))) =
     respond 500 (Obj [(''error'', Str (utf16 ''v.label.text.replace is not a function''))])"
proof (intro conjI)
  show "trim (remove_glyphs fire_urgent) = utf16 ''Urgent''"
    by (simp add: fire_urgent_def trim_def remove_glyphs_def glyph_unit_def white_space_def
        utf16_def)
  show clean: "trim (remove_glyphs warning_urgent) = [0x26A0, 0xFE0F, 0x20] @ utf16 ''Urgent''"
    by (simp add: warning_urgent_def trim_def remove_glyphs_def glyph_unit_def white_space_def
        utf16_def)
  show "trim (remove_glyphs heart_urgent) = [0xFE0F, 0x20] @ utf16 ''Urgent''"
    by (simp add: heart_urgent_def trim_def remove_glyphs_def glyph_unit_def white_space_def
        utf16_def)
  show "trim (remove_glyphs clef_urgent) = [0xD834, 0x20] @ utf16 ''Urgent''"
    by (simp add: clef_urgent_def trim_def remove_glyphs_def glyph_unit_def white_space_def
        utf16_def)
  have b: "truthy (pulseId_of sample_env (event_post (Num 77) (Str (utf16 ''priority'')) x))"
    for x
    by (simp add: pulseId_of_event_post)
  have c: "locate sample_env sample_store
      (pulseId_of sample_env (event_post (Num 77) (Str (utf16 ''priority'')) x)) =
      (Inr (Obj project_b), [Select_eq ''monday_item_id'' (Num 77)])" for x
    unfolding pulseId_of_event_post by (rule sample_locate_77)
  have e: "strict_eq (get_prop (event_of sample_env
      (event_post (Num 77) (Str (utf16 ''priority'')) x)) ''columnId'')
      (env_value (MONDAY_PRIORITY_COL_ID sample_env))" for x
    unfolding event_of_event_post by (simp add: sample_env_def env_value_def)
  let ?v = "Obj [(''label'', Obj [(''text'', Str warning_urgent)])]"
  let ?req = "event_post (Num 77) (Str (utf16 ''priority'')) ?v"
  have f: "get_prop (get_prop (safeParse sample_env (get_prop (event_of sample_env ?req) ''value''))
      ''label'') ''text'' = Str warning_urgent"
    unfolding event_of_event_post by (simp add: safeParse_def)
  have g: "warning_urgent \<noteq> []"
    by (simp add: warning_urgent_def)
  have d: "dispatch sample_env (event_of sample_env ?req)
      (safeParse sample_env (get_prop (event_of sample_env ?req) ''value'')) =
      Inr [(''priority'', Str ([0x26A0, 0xFE0F, 0x20] @ utf16 ''Urgent''))]"
    using dispatch_priority [OF sample_distinct_columns e f g] unfolding clean .
  have "catch_block (apply_event sample_env sample_store (event_of sample_env ?req)
      (Obj project_b) [Select_eq ''monday_item_id'' (Num 77)]) =
      \<lparr>result = success (Obj project_b)
         [(''priority'', Str ([0x26A0, 0xFE0F, 0x20] @ utf16 ''Urgent''))],
       db = written sample_env sample_store
         [(''priority'', Str ([0x26A0, 0xFE0F, 0x20] @ utf16 ''Urgent''))]
         (get_prop (Obj project_b) ''id''),
       ops = [Select_eq ''monday_item_id'' (Num 77)] @
         [Update [(''priority'', Str ([0x26A0, 0xFE0F, 0x20] @ utf16 ''Urgent''))]
            (get_prop (Obj project_b) ''id'')]\<rparr>"
    by (rule apply_event_write [OF d]) (simp_all add: sample_no_fault)
  then show "handler sample_env sample_store ?req =
     \<lparr>result = success (Obj project_b)
        [(''priority'', Str ([0x26A0, 0xFE0F, 0x20] @ utf16 ''Urgent''))],
      db = [project_a,
            update_row sample_env
              [(''priority'', Str ([0x26A0, 0xFE0F, 0x20] @ utf16 ''Urgent''))] project_b],
      ops = [Select_eq ''monday_item_id'' (Num 77),
             Update [(''priority'', Str ([0x26A0, 0xFE0F, 0x20] @ utf16 ''Urgent''))]
               (Str id_b)]\<rparr>"
    unfolding handler_located [OF sample_event_request b c] sample_id_b sample_written_b
    by simp
  let ?w = "Obj [(''label'', Obj [(''text'', Num 5)])]"
  let ?req5 = "event_post (Num 77) (Str (utf16 ''priority'')) ?w"
  have "dispatch sample_env (event_of sample_env ?req5)
      (safeParse sample_env (get_prop (event_of sample_env ?req5) ''value'')) =
      Inl (utf16 ''v.label.text.replace is not a function'')"
    using e [of ?w] sample_distinct_columns strict_eq_env_value [OF e [of ?w]]
    unfolding event_of_event_post
    by (auto simp add: dispatch_def safeParse_def Let_def distinct_columns_def column_ids_def)
  then show "result (handler sample_env sample_store ?req5) =
     respond 500 (Obj [(''error'', Str (utf16 ''v.label.text.replace is not a function''))])"
    unfolding handler_located [OF sample_event_request b c]
    by (simp add: apply_event_def catch_block_def or_js_def utf16_def)
qed

text \<open>
  C9. For an event of the visibility column the dispatch always resolves the update
  \<open>grant_view\<close>, whatever the parsed value is (an object, a string that did not
  parse, \<^verbatim>\<open>null\<close>, \<^verbatim>\<open>undefined\<close>): the flag is true exactly
  when \<open>checked\<close> of the parsed value is the boolean \<^verbatim>\<open>true\<close> or the
  string \<^verbatim>\<open>"true"\<close>, and the write with that payload is issued.
\<close>

theorem C9_visibility_always:
  assumes "distinct_columns env"
    and "strict_eq (get_prop (event_of env req) ''columnId'')
           (env_value (MONDAY_GRANT_ACCESS_COL_ID env))"
    and "safeParse env (get_prop (event_of env req) ''value'') = v"
  shows "dispatch env (event_of env req) v =
           Inr [(''grant_view'', Bool (get_prop v ''checked'' = Bool True \<or>
                                      get_prop v ''checked'' = Str (utf16 ''true'')))] \<and>
         (\<forall>r tr. event_request env req \<and> truthy (pulseId_of env req) \<and>
                 locate env st (pulseId_of env req) = (Inr (Obj r), tr) \<longrightarrow>
                 ops (handler env st req) =
                   tr @ [Update [(''grant_view'', Bool (get_prop v ''checked'' = Bool True \<or>
                                                       get_prop v ''checked'' = Str (utf16 ''true'')))]
                           (get_prop (Obj r) ''id'')])"
proof -
  have d: "dispatch env (event_of env req) v =
           Inr [(''grant_view'', Bool (get_prop v ''checked'' = Bool True \<or>
                                      get_prop v ''checked'' = Str (utf16 ''true'')))]"
    by (rule dispatch_grant_access [OF assms(1,2)])
  then have d': "dispatch env (event_of env req)
      (safeParse env (get_prop (event_of env req) ''value'')) =
           Inr [(''grant_view'', Bool (get_prop v ''checked'' = Bool True \<or>
                                      get_prop v ''checked'' = Str (utf16 ''true'')))]"
    unfolding assms(3) .
  have "ops (handler env st req) =
           tr @ [Update [(''grant_view'', Bool (get_prop v ''checked'' = Bool True \<or>
                                               get_prop v ''checked'' = Str (utf16 ''true'')))]
                   (get_prop (Obj r) ''id'')]"
    if "event_request env req \<and> truthy (pulseId_of env req) \<and>
        locate env st (pulseId_of env req) = (Inr (Obj r), tr)" for r tr
  proof -
    have "handler env st req = catch_block (apply_event env st (event_of env req) (Obj r) tr)"
      using that by (simp add: handler_located)
    then show ?thesis
      using apply_event_ops [OF d', of st "Obj r" tr] by simp
  qed
  with d show ?thesis by blast
qed

text \<open>
  Instances: \<open>checked\<close> the string \<^verbatim>\<open>"true"\<close>, the boolean
  \<^verbatim>\<open>false\<close>, and an event without a value.
\<close>

theorem C9_visibility_always_witness:
  "ops (handler sample_env sample_store
       (event_post (Num 77) (Str (utf16 ''check'')) (Obj [(''checked'', Str (utf16 ''true''))]))) =
     [Select_eq ''monday_item_id'' (Num 77), Update [(''grant_view'', Bool True)] (Str id_b)] \<and>
   ops (handler sample_env sample_store
       (event_post (Num 77) (Str (utf16 ''check'')) (Obj [(''checked'', Bool False)]))) =
     [Select_eq ''monday_item_id'' (Num 77), Update [(''grant_view'', Bool False)] (Str id_b)] \<and>
   ops (handler sample_env sample_store
       (event_post (Num 77) (Str (utf16 ''check'')) Undefined)) =
     [Select_eq ''monday_item_id'' (Num 77), Update [(''grant_view'', Bool False)] (Str id_b)]"
proof -
  have b: "truthy (pulseId_of sample_env (event_post (Num 77) (Str (utf16 ''check'')) x))" for x
    by (simp add: pulseId_of_event_post)
  have c: "locate sample_env sample_store
      (pulseId_of sample_env (event_post (Num 77) (Str (utf16 ''check'')) x)) =
      (Inr (Obj project_b), [Select_eq ''monday_item_id'' (Num 77)])" for x
    unfolding pulseId_of_event_post by (rule sample_locate_77)
  have e: "strict_eq
      (get_prop (event_of sample_env (event_post (Num 77) (Str (utf16 ''check'')) x)) ''columnId'')
      (env_value (MONDAY_GRANT_ACCESS_COL_ID sample_env))" for x
    unfolding event_of_event_post by (simp add: sample_env_def env_value_def)
  have f1: "safeParse sample_env (get_prop (event_of sample_env
      (event_post (Num 77) (Str (utf16 ''check'')) (Obj [(''checked'', Str (utf16 ''true''))]))) ''value'') =
      Obj [(''checked'', Str (utf16 ''true''))]"
    unfolding event_of_event_post by (simp add: safeParse_def)
  have f2: "safeParse sample_env (get_prop (event_of sample_env
      (event_post (Num 77) (Str (utf16 ''check'')) (Obj [(''checked'', Bool False)]))) ''value'') =
      Obj [(''checked'', Bool False)]"
    unfolding event_of_event_post by (simp add: safeParse_def)
  have f3: "safeParse sample_env (get_prop (event_of sample_env
      (event_post (Num 77) (Str (utf16 ''check'')) Undefined)) ''value'') = Undefined"
    unfolding event_of_event_post by (simp add: safeParse_def)
  show ?thesis
    using C9_visibility_always [OF sample_distinct_columns e f1, of sample_store,
        THEN conjunct2, rule_format, of project_b "[Select_eq ''monday_item_id'' (Num 77)]"]
      C9_visibility_always [OF sample_distinct_columns e f2, of sample_store,
        THEN conjunct2, rule_format, of project_b "[Select_eq ''monday_item_id'' (Num 77)]"]
      C9_visibility_always [OF sample_distinct_columns e f3, of sample_store,
        THEN conjunct2, rule_format, of project_b "[Select_eq ''monday_item_id'' (Num 77)]"]
      sample_event_request b c
    unfolding sample_id_b by simp
qed

text \<open>
  C5. For an event of the feedback column whose parsed value has a truthy \<open>text\<close>,
  the dispatch puts the attribute \<open>feedback\<close> into the payload, and the write with
  that payload is issued against the located project, although \<open>feedback\<close> is not a
  column of the table \<open>projects\<close>.
\<close>

theorem C5_feedback_payload:
  assumes "distinct_columns env"
    and "strict_eq (get_prop (event_of env req) ''columnId'') (env_value (MONDAY_FEEDBACK_COL_ID env))"
    and "safeParse env (get_prop (event_of env req) ''value'') = v"
    and "truthy (get_prop v ''text'')"
  shows "dispatch env (event_of env req) v = Inr [(''feedback'', get_prop v ''text'')] \<and>
         ''feedback'' \<notin> set projects_columns \<and>
         (\<forall>r tr. event_request env req \<and> truthy (pulseId_of env req) \<and>
                 locate env st (pulseId_of env req) = (Inr (Obj r), tr) \<longrightarrow>
                 ops (handler env st req) =
                   tr @ [Update [(''feedback'', get_prop v ''text'')] (get_prop (Obj r) ''id'')])"
proof -
  have d: "dispatch env (event_of env req) v = Inr [(''feedback'', get_prop v ''text'')]"
    by (rule dispatch_feedback [OF assms(1,2,4)])
  then have d': "dispatch env (event_of env req)
      (safeParse env (get_prop (event_of env req) ''value'')) =
        Inr [(''feedback'', get_prop v ''text'')]"
    unfolding assms(3) .
  have "ops (handler env st req) =
           tr @ [Update [(''feedback'', get_prop v ''text'')] (get_prop (Obj r) ''id'')]"
    if "event_request env req \<and> truthy (pulseId_of env req) \<and>
        locate env st (pulseId_of env req) = (Inr (Obj r), tr)" for r tr
  proof -
    have "handler env st req = catch_block (apply_event env st (event_of env req) (Obj r) tr)"
      using that by (simp add: handler_located)
    then show ?thesis
      using apply_event_ops [OF d', of st "Obj r" tr] by simp
  qed
  moreover have "''feedback'' \<notin> set projects_columns"
    by (simp add: projects_columns_def)
  ultimately show ?thesis using d by blast
qed

text \<open>
  An instance: a feedback text for the item 77.
\<close>

theorem C5_feedback_payload_witness:
  "ops (handler sample_env sample_store
       (event_post (Num 77) (Str (utf16 ''text9'')) (Obj [(''text'', Str (utf16 ''Great''))]))) =
     [Select_eq ''monday_item_id'' (Num 77),
      Update [(''feedback'', Str (utf16 ''Great''))] (Str id_b)]"
proof -
  let ?v = "Obj [(''text'', Str (utf16 ''Great''))]"
  let ?req = "event_post (Num 77) (Str (utf16 ''text9'')) ?v"
  have b: "truthy (pulseId_of sample_env ?req)"
    by (simp add: pulseId_of_event_post)
  have c: "locate sample_env sample_store (pulseId_of sample_env ?req) =
      (Inr (Obj project_b), [Select_eq ''monday_item_id'' (Num 77)])"
    unfolding pulseId_of_event_post by (rule sample_locate_77)
  have e: "strict_eq (get_prop (event_of sample_env ?req) ''columnId'')
      (env_value (MONDAY_FEEDBACK_COL_ID sample_env))"
    unfolding event_of_event_post by (simp add: sample_env_def env_value_def)
  have f: "safeParse sample_env (get_prop (event_of sample_env ?req) ''value'') = ?v"
    unfolding event_of_event_post by (simp add: safeParse_def)
  have g: "truthy (get_prop ?v ''text'')"
    by (simp add: utf16_def)
  show ?thesis
    using C5_feedback_payload [OF sample_distinct_columns e f g, of sample_store,
        THEN conjunct2, THEN conjunct2, rule_format,
        of project_b "[Select_eq ''monday_item_id'' (Num 77)]"]
      sample_event_request b c
    unfolding sample_id_b by simp
qed

text \<open>
  C10. When the value of the event is a string that \<^verbatim>\<open>JSON.parse\<close>
  rejects, \<open>safeParse\<close> returns the string itself and the dispatch throws nothing
  for it, whatever the column is; in the file branch a non-empty such string becomes
  \<open>file_url\<close>, with the placeholder as \<open>file_name\<close>. With a project located and
  a data layer that accepts the write, the handler answers 200.
\<close>

theorem C10_malformed_value:
  assumes "get_prop (event_of env req) ''value'' = Str s"
    and "JSON_parse env s = None"
  shows "safeParse env (get_prop (event_of env req) ''value'') = Str s \<and>
         (\<exists>updates. dispatch env (event_of env req)
            (safeParse env (get_prop (event_of env req) ''value'')) = Inr updates) \<and>
         (distinct_columns env \<and>
          strict_eq (get_prop (event_of env req) ''columnId'') (env_value (MONDAY_FILE_COL_ID env)) \<and>
          s \<noteq> [] \<longrightarrow>
          dispatch env (event_of env req) (safeParse env (get_prop (event_of env req) ''value'')) =
            Inr [(''file_url'', Str s), (''file_name'', Str (utf16 ''Project File''))]) \<and>
         (\<forall>r tr. event_request env req \<and> truthy (pulseId_of env req) \<and>
                 locate env st (pulseId_of env req) = (Inr (Obj r), tr) \<and>
                 (\<forall>u. db_fault env (Update u (get_prop (Obj r) ''id'')) = None) \<longrightarrow>
                 status (result (handler env st req)) = 200)"
proof -
  have v: "safeParse env (get_prop (event_of env req) ''value'') = Str s"
    using assms by (simp add: safeParse_def)
  obtain updates where d: "dispatch env (event_of env req) (Str s) = Inr updates"
    using dispatch_raw_string by blast
  then have d': "dispatch env (event_of env req)
      (safeParse env (get_prop (event_of env req) ''value'')) = Inr updates"
    by (simp add: v)
  have url: "dispatch env (event_of env req) (Str s) =
      Inr [(''file_url'', Str s), (''file_name'', Str (utf16 ''Project File''))]"
    if "distinct_columns env"
      and "strict_eq (get_prop (event_of env req) ''columnId'') (env_value (MONDAY_FILE_COL_ID env))"
      and "s \<noteq> []"
    using dispatch_file [OF that(1,2), of "Str s"] that(3) assms(1)
    by (simp add: or_js_def)
  have run: "status (result (handler env st req)) = 200"
    if "event_request env req \<and> truthy (pulseId_of env req) \<and>
        locate env st (pulseId_of env req) = (Inr (Obj r), tr) \<and>
        (\<forall>u. db_fault env (Update u (get_prop (Obj r) ''id'')) = None)" for r tr
  proof -
    have h: "handler env st req = catch_block (apply_event env st (event_of env req) (Obj r) tr)"
      using that by (simp add: handler_located)
    have "result (handler env st req) = success (Obj r) updates"
    proof (cases "updates = []")
      case True
      with d' show ?thesis
        unfolding h by (simp add: apply_event_noop)
    next
      case False
      with d' that show ?thesis
        unfolding h by (simp add: apply_event_write)
    qed
    then show ?thesis by (simp add: status_success)
  qed
  show ?thesis
    unfolding v using d url run by blast
qed

text \<open>
  An instance: the text \<open>not json\<close> as the value of the file column.
\<close>

theorem C10_malformed_value_witness:
  "status (result (handler sample_env sample_store
       (event_post (Num 77) (Str (utf16 ''files'')) (Str (utf16 ''not json''))))) = 200 \<and>
   dispatch sample_env
     (event_of sample_env (event_post (Num 77) (Str (utf16 ''files'')) (Str (utf16 ''not json''))))
     (safeParse sample_env (Str (utf16 ''not json''))) =
     Inr [(''file_url'', Str (utf16 ''not json'')), (''file_name'', Str (utf16 ''Project File''))]"
proof -
  let ?req = "event_post (Num 77) (Str (utf16 ''files'')) (Str (utf16 ''not json''))"
  have b: "truthy (pulseId_of sample_env ?req)"
    by (simp add: pulseId_of_event_post)
  have c: "locate sample_env sample_store (pulseId_of sample_env ?req) =
      (Inr (Obj project_b), [Select_eq ''monday_item_id'' (Num 77)])"
    unfolding pulseId_of_event_post by (rule sample_locate_77)
  have e: "get_prop (event_of sample_env ?req) ''value'' = Str (utf16 ''not json'')"
    unfolding event_of_event_post by simp
  have f: "JSON_parse sample_env (utf16 ''not json'') = None"
    by (simp add: sample_env_def sample_parse_def utf16_def)
  have g: "\<forall>u. db_fault sample_env (Update u (get_prop (Obj project_b) ''id'')) = None"
    by (simp add: sample_no_fault)
  have h: "strict_eq (get_prop (event_of sample_env ?req) ''columnId'')
      (env_value (MONDAY_FILE_COL_ID sample_env))"
    unfolding event_of_event_post by (simp add: sample_env_def env_value_def)
  have i: "utf16 ''not json'' \<noteq> []"
    by (simp add: utf16_def)
  show ?thesis
    using C10_malformed_value [OF e f, of sample_store] sample_event_request [of "Num 77"]
      b c g h i sample_distinct_columns
    unfolding e by blast
qed

text \<open>
  C4. When the column identifier of the event is none of the configured ones, or more
  generally the dispatch resolves no update, the handler writes nothing: the store is
  unchanged and no update is among the operations it issues. With the project located,
  it answers 200 with an empty object \<open>updates\<close>, having issued the lookups only.
\<close>

theorem C4_no_op:
  assumes "\<not> recognized env (get_prop (event_of env req) ''columnId'') \<or>
           dispatch env (event_of env req)
             (safeParse env (get_prop (event_of env req) ''value'')) = Inr []"
  shows "db (handler env st req) = st \<and>
         (\<forall>u i. Update u i \<notin> set (ops (handler env st req))) \<and>
         (\<forall>r tr. event_request env req \<and> truthy (pulseId_of env req) \<and>
                 locate env st (pulseId_of env req) = (Inr (Obj r), tr) \<longrightarrow>
                 handler env st req =
                   \<lparr>result = respond 200
                      (Obj [(''success'', Bool True),
                            (''message'', Str (utf16 ''Webhook processed successfully'')),
                            (''projectId'', get_prop (Obj r) ''id''),
                            (''updates'', Obj [])]),
                    db = st, ops = tr\<rparr>)"
proof -
  have d: "dispatch env (event_of env req)
      (safeParse env (get_prop (event_of env req) ''value'')) = Inr []"
    using assms dispatch_unrecognized by blast
  have "db (handler env st req) = st \<and> (\<forall>u i. Update u i \<notin> set (ops (handler env st req)))"
    using try_block_no_write [OF d, of st]
    by (simp add: handler_def catch_block_ops catch_block_db)
  moreover have "handler env st req =
                   \<lparr>result = respond 200
                      (Obj [(''success'', Bool True),
                            (''message'', Str (utf16 ''Webhook processed successfully'')),
                            (''projectId'', get_prop (Obj r) ''id''),
                            (''updates'', Obj [])]),
                    db = st, ops = tr\<rparr>"
    if "event_request env req \<and> truthy (pulseId_of env req) \<and>
        locate env st (pulseId_of env req) = (Inr (Obj r), tr)" for r tr
  proof -
    have "handler env st req = catch_block (apply_event env st (event_of env req) (Obj r) tr)"
      using that by (simp add: handler_located)
    also have "\<dots> = \<lparr>result = success (Obj r) [], db = st, ops = tr\<rparr>"
      using d by (rule apply_event_noop)
    finally show ?thesis
      by (simp add: success_def del: get_prop.simps)
  qed
  ultimately show ?thesis by blast
qed

text \<open>
  An instance: an event of a column that is not configured.
\<close>

theorem C4_no_op_witness:
  "handler sample_env sample_store (event_post (Num 77) (Str (utf16 ''long_text'')) (Str (utf16 ''hello''))) =
     \<lparr>result = respond 200
        (Obj [(''success'', Bool True),
              (''message'', Str (utf16 ''Webhook processed successfully'')),
              (''projectId'', Str id_b),
              (''updates'', Obj [])]),
      db = sample_store, ops = [Select_eq ''monday_item_id'' (Num 77)]\<rparr>"
proof -
  let ?req = "event_post (Num 77) (Str (utf16 ''long_text'')) (Str (utf16 ''hello''))"
  have b: "truthy (pulseId_of sample_env ?req)"
    by (simp add: pulseId_of_event_post)
  have c: "locate sample_env sample_store (pulseId_of sample_env ?req) =
      (Inr (Obj project_b), [Select_eq ''monday_item_id'' (Num 77)])"
    unfolding pulseId_of_event_post by (rule sample_locate_77)
  have "\<not> recognized sample_env (get_prop (event_of sample_env ?req) ''columnId'')"
    unfolding event_of_event_post
    by (simp add: recognized_def column_ids_def sample_env_def env_value_def utf16_def)
  then have d: "\<not> recognized sample_env (get_prop (event_of sample_env ?req) ''columnId'') \<or>
         dispatch sample_env (event_of sample_env ?req)
           (safeParse sample_env (get_prop (event_of sample_env ?req) ''value'')) = Inr []"
    by simp
  show ?thesis
    using C4_no_op [OF d, of sample_store, THEN conjunct2, THEN conjunct2, rule_format,
        of project_b "[Select_eq ''monday_item_id'' (Num 77)]"] sample_event_request b c
    unfolding sample_id_b by simp
qed

end
